theory Spec2Isabelle
  imports Complex_Main
begin

section \<open>Python strings\<close>

text \<open>
  A Python \<open>str\<close> is the list of its Unicode code points. \<open>u\<close> gives the \<open>str\<close> of a
  literal written in ASCII; the dot is code point 46 and the slash 47. Keys of the
  dictionaries the code builds are fixed identifiers and stay Isabelle strings.
\<close>

type_synonym str = "nat list"

definition u :: "string \<Rightarrow> str" where
  "u s = map of_char s"

text \<open>
  What the Python runtime knows about Unicode is a parameter: \<open>str.lower\<close> (which is not
  a map over the characters: it depends on the neighbours of a capital sigma, and may
  change the length), the decimal digits \<open>\d\<close> matches, the value \<open>int\<close> gives a digit,
  and the white space \<open>\s\<close> matches.
\<close>

record python =
  lower :: "str \<Rightarrow> str"
  is_decimal :: "nat \<Rightarrow> bool"
  digit_value :: "nat \<Rightarrow> int"
  is_space :: "nat \<Rightarrow> bool"

text \<open>\<open>s.split(d)\<close> for a one-character separator: never the empty list.\<close>

fun str_split :: "'a \<Rightarrow> 'a list \<Rightarrow> 'a list list" where
  "str_split d [] = [[]]"
| "str_split d (c # cs) =
     (if c = d then [] # str_split d cs
      else (c # hd (str_split d cs)) # tl (str_split d cs))"

text \<open>\<open>s.rsplit(d, 1)\<close>: split once, at the last separator.\<close>

definition str_rsplit1 :: "'a \<Rightarrow> 'a list \<Rightarrow> 'a list list" where
  "str_rsplit1 d s =
     (if d \<in> set s
      then [rev (tl (dropWhile (\<lambda>c. c \<noteq> d) (rev s))), rev (takeWhile (\<lambda>c. c \<noteq> d) (rev s))]
      else [s])"

text \<open>\<open>s.rfind(d)\<close>: the index of the last separator, or -1.\<close>

definition rfind :: "'a \<Rightarrow> 'a list \<Rightarrow> int" where
  "rfind d s =
     (if d \<in> set s then int (length s) - 1 - int (length (takeWhile (\<lambda>c. c \<noteq> d) (rev s)))
      else - 1)"

text \<open>\<open>sub in s\<close>: the substring test.\<close>

fun starts_with :: "'a list \<Rightarrow> 'a list \<Rightarrow> bool" where
  "starts_with [] s = True"
| "starts_with (p # ps) [] = False"
| "starts_with (p # ps) (c # cs) = (p = c \<and> starts_with ps cs)"

fun contains :: "'a list \<Rightarrow> 'a list \<Rightarrow> bool" where
  "contains sub [] = (sub = [])"
| "contains sub (c # cs) = (starts_with sub (c # cs) \<or> contains sub cs)"

text \<open>\<open>str(n)\<close> for a natural number.\<close>

function str_nat :: "nat \<Rightarrow> str" where
  "str_nat n = (if n < 10 then [48 + n] else str_nat (n div 10) @ [48 + n mod 10])"
  by pat_completeness auto
termination
  by (relation "measure id") auto

section \<open>pathlib\<close>

text \<open>
  \<open>Path(filename)\<close> on a POSIX system: the parts are the pieces between slashes, the
  empty ones and the ones that are a single dot left out; \<open>name\<close> is the last part,
  or empty. \<open>suffix\<close> and \<open>stem\<close> cut the name at its last dot, unless that dot is the
  first or the last character of the name (Python 3.8 to 3.13).
\<close>

definition path_parts :: "str \<Rightarrow> str list" where
  "path_parts p = filter (\<lambda>x. x \<noteq> [] \<and> x \<noteq> [46]) (str_split 47 p)"

definition path_name :: "str \<Rightarrow> str" where
  "path_name p = (if path_parts p = [] then [] else last (path_parts p))"

definition suffix :: "str \<Rightarrow> str" where
  "suffix p =
     (let name = path_name p; i = rfind 46 name
      in if 0 < i \<and> i < int (length name) - 1 then drop (nat i) name else [])"

definition stem :: "str \<Rightarrow> str" where
  "stem p =
     (let name = path_name p; i = rfind 46 name
      in if 0 < i \<and> i < int (length name) - 1 then take (nat i) name else name)"

section \<open>File formats\<close>

text \<open>
  Base variant, \<open>get_file_format\<close>. \<open>FormatToExtensions\<close> is a table of the conversion
  library (format, list of extensions), in the order the dictionary is iterated; it is a
  parameter here. The loop returns the first format whose list holds the extension.
\<close>

fun find_format :: "('f \<times> str list) list \<Rightarrow> str \<Rightarrow> 'f option" where
  "find_format [] extension = None"
| "find_format ((format_type, extensions) # rest) extension =
     (if extension \<in> set extensions then Some format_type else find_format rest extension)"

definition get_file_format :: "python \<Rightarrow> ('f \<times> str list) list \<Rightarrow> str \<Rightarrow> 'f option" where
  "get_file_format py FormatToExtensions filename =
     (if filename = [] then None
      else let extension = last (str_split 46 (lower py filename))
           in find_format FormatToExtensions extension)"

text \<open>Enhanced variant: the suffix of the path, lowercased, looked up in a fixed table.\<close>

definition format_mapping :: "(str \<times> str) list" where
  "format_mapping =
     [(u ''.pdf'', u ''PDF''), (u ''.docx'', u ''DOCX''), (u ''.pptx'', u ''PPTX''),
      (u ''.html'', u ''HTML''), (u ''.htm'', u ''HTML''), (u ''.png'', u ''Image''),
      (u ''.jpg'', u ''Image''), (u ''.jpeg'', u ''Image''), (u ''.tiff'', u ''Image''),
      (u ''.bmp'', u ''Image''), (u ''.adoc'', u ''AsciiDoc''), (u ''.md'', u ''Markdown'')]"

definition get_file_format_enh :: "python \<Rightarrow> str \<Rightarrow> str option" where
  "get_file_format_enh py filename =
     (let ext = lower py (suffix filename) in map_of format_mapping ext)"

section \<open>Values, exceptions and the outside world\<close>

text \<open>
  A result record is a Python dictionary from field names to values of several types; no
  type keeps a success record and a failure record apart.
\<close>

datatype pyval = PStr str | PBool bool | PInt int | PFloat real

type_synonym pydict = "string \<rightharpoonup> pyval"

text \<open>
  An exception caught by \<open>except Exception\<close>: its class name and the text \<open>str(e)\<close>
  gives for it.
\<close>

datatype exn = Exn string str

fun str_e :: "exn \<Rightarrow> str" where
  "str_e (Exn cls msg) = msg"

record uploaded_file =
  name :: str
  getvalue :: str
  file_size :: nat

text \<open>
  The document a conversion returns. Each export may raise; \<open>pages\<close> is the length of
  the \<open>pages\<close> attribute, or \<open>None\<close> when the document has no such attribute.
\<close>

record document =
  export_to_markdown :: "exn + str"
  export_to_html :: "exn + str"
  export_to_json :: "exn + str"
  export_to_text :: "exn + str"
  pages :: "nat option"

text \<open>
  The world the loop changes: the temporary files (path to content) and the number of
  clock readings taken so far.
\<close>

record world =
  fs :: "str \<rightharpoonup> str"
  clock :: nat

text \<open>
  The collaborators outside the repository, as parameters: the Python runtime, the
  library's extension table, the creation of a named temporary file (given the files that
  exist and a suffix, a path or an exception), the converter (given the files and a path,
  a document or an exception), the operating system's refusal to unlink a file that exists
  (a permission, a file still open) and the clock (its k-th reading). Writing the upload
  into the temporary file is one step with its creation.
\<close>

record 'f env =
  runtime :: python
  FormatToExtensions :: "('f \<times> str list) list"
  NamedTemporaryFile :: "(str \<rightharpoonup> str) \<Rightarrow> str \<Rightarrow> exn + str"
  converter_convert :: "(str \<rightharpoonup> str) \<Rightarrow> str \<Rightarrow> exn + document"
  unlink_refused :: "(str \<rightharpoonup> str) \<Rightarrow> str \<Rightarrow> exn option"
  now :: "nat \<Rightarrow> real"

definition time_time :: "'f env \<Rightarrow> world \<Rightarrow> real \<times> world" where
  "time_time env w = (now env (clock w), w\<lparr>clock := Suc (clock w)\<rparr>)"

definition os_path_exists :: "str \<Rightarrow> world \<Rightarrow> bool" where
  "os_path_exists p w = (fs w p \<noteq> None)"

text \<open>\<open>os.unlink\<close> raises when the file is missing or the system refuses.\<close>

definition os_unlink :: "'f env \<Rightarrow> str \<Rightarrow> world \<Rightarrow> exn + world" where
  "os_unlink env p w =
     (case fs w p of
        None \<Rightarrow>
          Inl (Exn ''FileNotFoundError''
                 (u ''[Errno 2] No such file or directory: '' @ [39] @ p @ [39]))
      | Some b \<Rightarrow>
          (case unlink_refused env (fs w) p of
             Some e \<Rightarrow> Inl e
           | None \<Rightarrow> Inr (w\<lparr>fs := (fs w)(p := None)\<rparr>)))"

section \<open>Base variant: the conversion loop of \<open>convert_documents\<close>\<close>

text \<open>The message of an unsupported format (eight Chinese characters).\<close>

definition msg_unsupported :: str where
  "msg_unsupported = [0x4E0D, 0x652F, 0x6301, 0x7684, 0x6587, 0x4EF6, 0x683C, 0x5F0F]"

definition export :: "document \<Rightarrow> str \<Rightarrow> exn + str" where
  "export doc output_format =
     (if output_format = u ''markdown'' then export_to_markdown doc
      else if output_format = u ''html'' then export_to_html doc
      else if output_format = u ''json'' then export_to_json doc
      else if output_format = u ''text'' then export_to_text doc
      else export_to_markdown doc)"

text \<open>
  The three dictionaries the loop appends: for a file whose format is not supported, for a
  converted file, and in the handler.
\<close>

definition unsupported_record :: "str \<Rightarrow> pydict" where
  "unsupported_record filename =
     map_of [(''filename'', PStr filename),
             (''status'', PStr (u ''error'')),
             (''message'', PStr msg_unsupported)]"

definition success_record :: "str \<Rightarrow> str \<Rightarrow> str \<Rightarrow> int \<Rightarrow> real \<Rightarrow> pydict" where
  "success_record filename content output_format n_pages processing_time =
     map_of [(''filename'', PStr filename),
             (''status'', PStr (u ''success'')),
             (''content'', PStr content),
             (''format'', PStr output_format),
             (''pages'', PInt n_pages),
             (''processing_time'', PFloat processing_time)]"

definition error_record :: "str \<Rightarrow> str \<Rightarrow> real \<Rightarrow> pydict" where
  "error_record filename error_msg processing_time =
     map_of [(''filename'', PStr filename),
             (''status'', PStr (u ''error'')),
             (''message'', PStr error_msg),
             (''processing_time'', PFloat processing_time)]"

text \<open>
  The body of the \<open>try\<close>: the exception it ends with, if any, and the results and the
  world as they stand then. The success record is appended before the temporary file is
  unlinked. Calls that only draw the user interface are left out.
\<close>

definition try_body ::
  "'f env \<Rightarrow> str \<Rightarrow> uploaded_file \<Rightarrow> real \<Rightarrow> pydict list \<Rightarrow> world
     \<Rightarrow> exn option \<times> pydict list \<times> world" where
  "try_body env output_format uploaded_file file_start_time results w =
     (case get_file_format (runtime env) (FormatToExtensions env) (name uploaded_file) of
        None \<Rightarrow>
          (None,
           results @ [unsupported_record (name uploaded_file)],
           w)
      | Some file_format \<Rightarrow>
          (case NamedTemporaryFile env (fs w)
                  (u ''.'' @ last (str_split 46 (name uploaded_file))) of
             Inl e \<Rightarrow> (Some e, results, w)
           | Inr tmp_file_path \<Rightarrow>
               let w1 = w\<lparr>fs := (fs w)(tmp_file_path \<mapsto> getvalue uploaded_file)\<rparr> in
               (case converter_convert env (fs w1) tmp_file_path of
                  Inl e \<Rightarrow> (Some e, results, w1)
                | Inr result \<Rightarrow>
                    (case export result output_format of
                       Inl e \<Rightarrow> (Some e, results, w1)
                     | Inr content \<Rightarrow>
                         let (file_end_time, w2) = time_time env w1;
                             processing_time = file_end_time - file_start_time;
                             results1 =
                               results @ [success_record (name uploaded_file) content
                                            output_format
                                            (case pages result of Some n \<Rightarrow> int n | None \<Rightarrow> 1)
                                            processing_time]
                         in (case os_unlink env tmp_file_path w2 of
                               Inl e \<Rightarrow> (Some e, results1, w2)
                             | Inr w3 \<Rightarrow> (None, results1, w3))))))"

text \<open>One turn of the loop: the \<open>try\<close> body, then the handler when it raised.\<close>

definition loop_body ::
  "'f env \<Rightarrow> str \<Rightarrow> uploaded_file \<Rightarrow> pydict list \<times> world \<Rightarrow> pydict list \<times> world" where
  "loop_body env output_format uploaded_file st =
     (let (file_start_time, w0) = time_time env (snd st) in
      case try_body env output_format uploaded_file file_start_time (fst st) w0 of
        (None, results1, w1) \<Rightarrow> (results1, w1)
      | (Some e, results1, w1) \<Rightarrow>
          let (file_end_time, w2) = time_time env w1;
              processing_time = file_end_time - file_start_time;
              error_msg = str_e e
          in (results1 @ [error_record (name uploaded_file) error_msg processing_time], w2))"

fun convert_loop ::
  "'f env \<Rightarrow> str \<Rightarrow> uploaded_file list \<Rightarrow> pydict list \<times> world \<Rightarrow> pydict list \<times> world" where
  "convert_loop env output_format [] st = st"
| "convert_loop env output_format (uploaded_file # rest) st =
     convert_loop env output_format rest (loop_body env output_format uploaded_file st)"

section \<open>Enhanced variant: the conversion loop of \<open>convert_files\<close>\<close>

definition msg_tmp_failed :: str where
  "msg_tmp_failed = [0x4E34, 0x65F6, 0x6587, 0x4EF6, 0x521B, 0x5EFA, 0x5931, 0x8D25, 0x3A, 0x20]"

definition msg_access_prefix :: str where
  "msg_access_prefix = [0x6587, 0x4EF6, 0x8BBF, 0x95EE, 0x9519, 0x8BEF, 0x3A, 0x20]"

definition msg_access_hints :: str where
  "msg_access_hints =
     [0xA, 0x53EF, 0x80FD, 0x539F, 0x56E0, 0x3A, 0xA, 0x2D, 0x20, 0x4E34, 0x65F6, 0x6587,
      0x4EF6, 0x521B, 0x5EFA, 0x5931, 0x8D25, 0xA, 0x2D, 0x20, 0x6587, 0x4EF6, 0x8DEF, 0x5F84,
      0x5305, 0x542B, 0x7279, 0x6B8A, 0x5B57, 0x7B26, 0xA, 0x2D, 0x20, 0x78C1, 0x76D8, 0x7A7A,
      0x95F4, 0x4E0D, 0x8DB3]"

definition msg_not_created :: str where
  "msg_not_created = [0x672A, 0x521B, 0x5EFA]"

text \<open>The content and the extension chosen from the output format; the last branch is text.\<close>

definition export_enh :: "document \<Rightarrow> str \<Rightarrow> exn + (str \<times> str)" where
  "export_enh doc output_format =
     (if output_format = u ''Markdown''
      then (case export_to_markdown doc of Inl e \<Rightarrow> Inl e | Inr content \<Rightarrow> Inr (content, u ''md''))
      else if output_format = u ''HTML''
      then (case export_to_html doc of Inl e \<Rightarrow> Inl e | Inr content \<Rightarrow> Inr (content, u ''html''))
      else if output_format = u ''JSON''
      then (case export_to_json doc of Inl e \<Rightarrow> Inl e | Inr content \<Rightarrow> Inr (content, u ''json''))
      else (case export_to_text doc of Inl e \<Rightarrow> Inl e | Inr content \<Rightarrow> Inr (content, u ''txt'')))"

text \<open>
  The cleanup both paths end with: unlink the temporary file when a path was bound and the
  file exists; a failure of the unlink is printed and swallowed.
\<close>

definition cleanup :: "'f env \<Rightarrow> str option \<Rightarrow> world \<Rightarrow> world" where
  "cleanup env tmp_file_path w =
     (case tmp_file_path of
        None \<Rightarrow> w
      | Some p \<Rightarrow>
          if p \<noteq> [] \<and> os_path_exists p w
          then (case os_unlink env p w of Inl cleanup_error \<Rightarrow> w | Inr w' \<Rightarrow> w')
          else w)"

text \<open>The two dictionaries the loop appends: for a converted file, and in the handler.\<close>

definition success_record_enh :: "str \<Rightarrow> str \<Rightarrow> str \<Rightarrow> real \<Rightarrow> pyval \<Rightarrow> pydict" where
  "success_record_enh filename content extension processing_time n_pages =
     map_of [(''filename'', PStr filename),
             (''success'', PBool True),
             (''content'', PStr content),
             (''extension'', PStr extension),
             (''processing_time'', PFloat processing_time),
             (''pages'', n_pages)]"

definition failure_record_enh :: "str \<Rightarrow> str \<Rightarrow> real \<Rightarrow> str \<Rightarrow> pydict" where
  "failure_record_enh filename error_msg processing_time tmp_file_path =
     map_of [(''filename'', PStr filename),
             (''success'', PBool False),
             (''error'', PStr error_msg),
             (''processing_time'', PFloat processing_time),
             (''tmp_file_path'', PStr tmp_file_path)]"

record run_state =
  conversion_results :: "pydict list"
  success_count :: nat
  the_world :: world

text \<open>
  The body of the \<open>try\<close>: the exception it ends with, if any, the value of
  \<open>tmp_file_path\<close> then, and the state.
\<close>

definition try_body_enh ::
  "'f env \<Rightarrow> str \<Rightarrow> uploaded_file \<Rightarrow> real \<Rightarrow> run_state
     \<Rightarrow> exn option \<times> str option \<times> run_state" where
  "try_body_enh env output_format uploaded_file start_time st =
     (case NamedTemporaryFile env (fs (the_world st)) (suffix (name uploaded_file)) of
        Inl e \<Rightarrow> (Some e, None, st)
      | Inr tmp_file_path \<Rightarrow>
          let w1 = (the_world st)\<lparr>fs := (fs (the_world st))(tmp_file_path \<mapsto> getvalue uploaded_file)\<rparr>;
              st1 = st\<lparr>the_world := w1\<rparr>
          in if \<not> os_path_exists tmp_file_path w1
             then (Some (Exn ''FileNotFoundError'' (msg_tmp_failed @ tmp_file_path)),
                   Some tmp_file_path, st1)
             else
               (case converter_convert env (fs w1) tmp_file_path of
                  Inl e \<Rightarrow> (Some e, Some tmp_file_path, st1)
                | Inr result \<Rightarrow>
                    (case export_enh result output_format of
                       Inl e \<Rightarrow> (Some e, Some tmp_file_path, st1)
                     | Inr (content, extension) \<Rightarrow>
                         let (t, w2) = time_time env w1;
                             processing_time = t - start_time;
                             record =
                               success_record_enh (name uploaded_file) content extension
                                 processing_time
                                 (case pages result of
                                    Some n \<Rightarrow> PInt (int n) | None \<Rightarrow> PStr (u ''N/A''))
                         in (None, Some tmp_file_path,
                             \<lparr>conversion_results = conversion_results st @ [record],
                              success_count = success_count st + 1,
                              the_world = cleanup env (Some tmp_file_path) w2\<rparr>))))"

text \<open>The message the handler stores: \<open>str(e)\<close>, wrapped when it names a missing file.\<close>

definition error_message_enh :: "exn \<Rightarrow> str" where
  "error_message_enh e =
     (let error_msg = str_e e in
      if contains (u ''No such file or directory'') error_msg
      then msg_access_prefix @ error_msg @ msg_access_hints
      else error_msg)"

definition loop_body_enh ::
  "'f env \<Rightarrow> str \<Rightarrow> uploaded_file \<Rightarrow> run_state \<Rightarrow> run_state" where
  "loop_body_enh env output_format uploaded_file st =
     (let (start_time, w0) = time_time env (the_world st) in
      case try_body_enh env output_format uploaded_file start_time (st\<lparr>the_world := w0\<rparr>) of
        (None, tmp_file_path, st1) \<Rightarrow> st1
      | (Some e, tmp_file_path, st1) \<Rightarrow>
          let (t, w2) = time_time env (the_world st1);
              processing_time = t - start_time;
              error_msg = error_message_enh e;
              record =
                failure_record_enh (name uploaded_file) error_msg processing_time
                  (case tmp_file_path of
                     None \<Rightarrow> msg_not_created
                   | Some p \<Rightarrow> if p = [] then msg_not_created else p)
          in st1\<lparr>conversion_results := conversion_results st1 @ [record],
                 the_world := cleanup env tmp_file_path w2\<rparr>)"

fun convert_loop_enh ::
  "'f env \<Rightarrow> str \<Rightarrow> uploaded_file list \<Rightarrow> run_state \<Rightarrow> run_state" where
  "convert_loop_enh env output_format [] st = st"
| "convert_loop_enh env output_format (uploaded_file # rest) st =
     convert_loop_enh env output_format rest (loop_body_enh env output_format uploaded_file st)"

section \<open>Rendering the results and the downloads\<close>

text \<open>
  What the page hands to the browser: a download button per converted file (data, file
  name, MIME type, widget key), an error box per failed file, the batch download with the
  entries of its zip archive (name and stored data, in the order written), and an error
  line. Boxes that only show text are left out.
\<close>

datatype widget =
    download_button str str str str
  | error_box pyval
  | zip_download "(str \<times> str) list" str str
  | st_error str

definition and_then :: "exn + 'a \<Rightarrow> ('a \<Rightarrow> exn + 'b) \<Rightarrow> exn + 'b" where
  "and_then m f = (case m of Inl e \<Rightarrow> Inl e | Inr x \<Rightarrow> f x)"

text \<open>\<open>d[k]\<close> raises \<open>KeyError\<close> on a missing key.\<close>

definition getitem :: "pydict \<Rightarrow> string \<Rightarrow> exn + pyval" where
  "getitem d k =
     (case d k of None \<Rightarrow> Inl (Exn ''KeyError'' ([39] @ u k @ [39])) | Some v \<Rightarrow> Inr v)"

text \<open>
  A field read as text (a file name given to \<open>rsplit\<close> or \<open>Path\<close>, a format given to
  \<open>upper\<close>, a content sliced and written): on any other value Python raises, and the model
  stops with a \<open>TypeError\<close>, whose class and message are not modelled further. The
  extension of the enhanced variant is read the same way: the code stores strings there, and
  how another value would be formatted into a file name is not modelled.
\<close>

definition as_str :: "pyval \<Rightarrow> exn + str" where
  "as_str v = (case v of PStr s \<Rightarrow> Inr s | _ \<Rightarrow> Inl (Exn ''TypeError'' []))"

text \<open>A value formatted with \<open>:.1f\<close> or \<open>:.2f\<close>: a string there raises \<open>ValueError\<close>.\<close>

definition format_f :: "pyval \<Rightarrow> exn + unit" where
  "format_f v = (case v of PStr s \<Rightarrow> Inl (Exn ''ValueError'' []) | _ \<Rightarrow> Inr ())"

definition truthy :: "pyval \<Rightarrow> bool" where
  "truthy v =
     (case v of PStr s \<Rightarrow> s \<noteq> [] | PBool b \<Rightarrow> b | PInt i \<Rightarrow> i \<noteq> 0 | PFloat r \<Rightarrow> r \<noteq> 0)"

subsection \<open>Base variant: \<open>display_results\<close>\<close>

definition file_extension :: "pyval \<Rightarrow> str" where
  "file_extension format =
     (case map_of [(PStr (u ''markdown''), u ''md''), (PStr (u ''html''), u ''html''),
                   (PStr (u ''json''), u ''json''), (PStr (u ''text''), u ''txt'')] format of
        Some e \<Rightarrow> e
      | None \<Rightarrow> u ''txt'')"

fun count_success :: "pydict list \<Rightarrow> exn + nat" where
  "count_success [] = Inr 0"
| "count_success (r # rs) =
     (case getitem r ''status'' of
        Inl e \<Rightarrow> Inl e
      | Inr status \<Rightarrow>
          (case count_success rs of
             Inl e \<Rightarrow> Inl e
           | Inr n \<Rightarrow> Inr (if status = PStr (u ''success'') then Suc n else n)))"

definition render_result :: "nat \<Rightarrow> pydict \<Rightarrow> exn + widget" where
  "render_result i result =
     and_then (getitem result ''filename'') (\<lambda>title.
     and_then (getitem result ''status'') (\<lambda>status.
       if status = PStr (u ''success'')
       then
         and_then (getitem result ''format'') (\<lambda>format.
         and_then (format_f (case result ''processing_time'' of None \<Rightarrow> PInt 0 | Some t \<Rightarrow> t))
           (\<lambda>_.
         and_then (and_then (getitem result ''content'') as_str) (\<lambda>content.
         and_then (as_str title) (\<lambda>filename.
         and_then (as_str format) (\<lambda>label.
           let file_extension = file_extension format;
               download_filename = hd (str_rsplit1 46 filename) @ u ''.'' @ file_extension
           in Inr (download_button content download_filename (u ''text/'' @ file_extension)
                     (u ''download_'' @ str_nat i)))))))
       else
         and_then (getitem result ''message'') (\<lambda>message.
         and_then (format_f (case result ''processing_time'' of None \<Rightarrow> PInt 0 | Some t \<Rightarrow> t))
           (\<lambda>_. Inr (error_box message)))))"

fun render_results :: "nat \<Rightarrow> pydict list \<Rightarrow> exn + widget list" where
  "render_results i [] = Inr []"
| "render_results i (result # rest) =
     (case render_result i result of
        Inl e \<Rightarrow> Inl e
      | Inr w \<Rightarrow>
          (case render_results (Suc i) rest of Inl e \<Rightarrow> Inl e | Inr ws \<Rightarrow> Inr (w # ws)))"

text \<open>
  The loop that fills the archive: \<open>writestr\<close> appends an entry. The entry of one result,
  or nothing for a result that is not a success.
\<close>

definition zip_entry :: "pydict \<Rightarrow> exn + (str \<times> str) option" where
  "zip_entry result =
     and_then (getitem result ''status'') (\<lambda>status.
       if status = PStr (u ''success'')
       then
         and_then (getitem result ''format'') (\<lambda>format.
         and_then (and_then (getitem result ''filename'') as_str) (\<lambda>fname.
         and_then (and_then (getitem result ''content'') as_str) (\<lambda>content.
           let filename = hd (str_rsplit1 46 fname) @ u ''.'' @ file_extension format
           in Inr (Some (filename, content)))))
       else Inr None)"

fun zip_results :: "pydict list \<Rightarrow> (str \<times> str) list \<Rightarrow> exn + (str \<times> str) list" where
  "zip_results [] zip_file = Inr zip_file"
| "zip_results (result # rest) zip_file =
     (case zip_entry result of
        Inl e \<Rightarrow> Inl e
      | Inr None \<Rightarrow> zip_results rest zip_file
      | Inr (Some entry) \<Rightarrow> zip_results rest (zip_file @ [entry]))"

definition msg_zip_failed :: str where
  "msg_zip_failed =
     [0x521B, 0x5EFA, 0x6279, 0x91CF, 0x4E0B, 0x8F7D, 0x65F6, 0x53D1, 0x751F, 0x9519, 0x8BEF,
      0x3A, 0x20]"

definition display_results :: "pydict list \<Rightarrow> exn + widget list" where
  "display_results results =
     and_then (count_success results) (\<lambda>success_count.
     and_then (render_results 0 results) (\<lambda>ws.
       if success_count > 1
       then (case zip_results results [] of
               Inl e \<Rightarrow> Inr (ws @ [st_error (msg_zip_failed @ str_e e)])
             | Inr zip_file \<Rightarrow>
                 Inr (ws @ [zip_download zip_file (u ''docling_converted_files.zip'')
                              (u ''application/zip'')]))
       else Inr ws))"

definition convert_documents ::
  "'f env \<Rightarrow> uploaded_file list \<Rightarrow> str \<Rightarrow> world \<Rightarrow> (exn + widget list) \<times> world" where
  "convert_documents env uploaded_files output_format w =
     (let (start_time, w0) = time_time env w;
          (results, w1) = convert_loop env output_format uploaded_files ([], w0);
          (end_time, w2) = time_time env w1
      in (display_results results, w2))"

subsection \<open>Enhanced variant: the second half of \<open>convert_files\<close>\<close>

definition get_mime_type :: "str \<Rightarrow> str" where
  "get_mime_type format_type =
     (case map_of [(u ''markdown'', u ''text/markdown''), (u ''html'', u ''text/html''),
                   (u ''json'', u ''application/json''), (u ''text'', u ''text/plain'')]
             format_type of
        Some m \<Rightarrow> m
      | None \<Rightarrow> u ''text/plain'')"

definition zip_entry_enh :: "pydict \<Rightarrow> exn + (str \<times> str) option" where
  "zip_entry_enh result =
     and_then (getitem result ''success'') (\<lambda>success.
       if truthy success
       then
         and_then (and_then (getitem result ''filename'') as_str) (\<lambda>fname.
         and_then (and_then (getitem result ''extension'') as_str) (\<lambda>extension.
         and_then (and_then (getitem result ''content'') as_str) (\<lambda>content.
           Inr (Some (stem fname @ u ''.'' @ extension, content)))))
       else Inr None)"

fun zip_results_enh ::
  "pydict list \<Rightarrow> (str \<times> str) list \<Rightarrow> exn + (str \<times> str) list" where
  "zip_results_enh [] zip_file = Inr zip_file"
| "zip_results_enh (result # rest) zip_file =
     (case zip_entry_enh result of
        Inl e \<Rightarrow> Inl e
      | Inr None \<Rightarrow> zip_results_enh rest zip_file
      | Inr (Some entry) \<Rightarrow> zip_results_enh rest (zip_file @ [entry]))"

definition render_result_enh :: "python \<Rightarrow> str \<Rightarrow> nat \<Rightarrow> nat \<Rightarrow> pydict \<Rightarrow> exn + widget" where
  "render_result_enh py output_format conversion_timestamp i result =
     and_then (getitem result ''success'') (\<lambda>success.
       if truthy success
       then
         and_then (getitem result ''filename'') (\<lambda>title.
         and_then (and_then (getitem result ''processing_time'') format_f) (\<lambda>_.
         and_then (and_then (getitem result ''content'') as_str) (\<lambda>content.
         and_then (as_str title) (\<lambda>filename.
         and_then (and_then (getitem result ''extension'') as_str) (\<lambda>extension.
           Inr (download_button content (stem filename @ u ''.'' @ extension)
                  (get_mime_type (lower py output_format))
                  (u ''download_'' @ str_nat i @ u ''_'' @ str_nat conversion_timestamp)))))))
       else
         and_then (getitem result ''filename'') (\<lambda>title.
         and_then (and_then (getitem result ''processing_time'') format_f) (\<lambda>_.
         and_then (getitem result ''error'') (\<lambda>error. Inr (error_box error)))))"

fun render_results_enh ::
  "python \<Rightarrow> str \<Rightarrow> nat \<Rightarrow> nat \<Rightarrow> pydict list \<Rightarrow> exn + widget list" where
  "render_results_enh py output_format conversion_timestamp i [] = Inr []"
| "render_results_enh py output_format conversion_timestamp i (result # rest) =
     (case render_result_enh py output_format conversion_timestamp i result of
        Inl e \<Rightarrow> Inl e
      | Inr w \<Rightarrow>
          (case render_results_enh py output_format conversion_timestamp (Suc i) rest of
             Inl e \<Rightarrow> Inl e
           | Inr ws \<Rightarrow> Inr (w # ws)))"

text \<open>The batch download comes first on the page, then one widget per result.\<close>

definition display_enh :: "python \<Rightarrow> pydict list \<Rightarrow> nat \<Rightarrow> str \<Rightarrow> nat \<Rightarrow> exn + widget list" where
  "display_enh py results successes output_format conversion_timestamp =
     and_then
       (if successes > 1
        then and_then (zip_results_enh results []) (\<lambda>zip_file.
               Inr [zip_download zip_file
                      (u ''converted_files_'' @ str_nat conversion_timestamp @ u ''.zip'')
                      (u ''application/zip'')])
        else Inr [])
       (\<lambda>batch.
          and_then (render_results_enh py output_format conversion_timestamp 0 results)
            (\<lambda>ws. Inr (batch @ ws)))"

definition convert_files ::
  "'f env \<Rightarrow> uploaded_file list \<Rightarrow> str \<Rightarrow> nat \<Rightarrow> world \<Rightarrow> ((exn + widget list) \<times> world) option" where
  "convert_files env uploaded_files output_format conversion_timestamp w =
     (if uploaded_files = [] then None
      else let st = convert_loop_enh env output_format uploaded_files
                      \<lparr>conversion_results = [], success_count = 0, the_world = w\<rparr>
           in Some (display_enh (runtime env) (conversion_results st) (success_count st) output_format
                      conversion_timestamp,
                    the_world st))"

section \<open>The log handler\<close>

text \<open>
  Objects that are shared by reference live in a heap: a cell per address and the next
  free address. A dictionary or list the handler hands out is an address, so that a write
  through it is a write to that cell.
\<close>

record 'o heap =
  cells :: "nat \<Rightarrow> 'o"
  next_addr :: nat

definition alloc :: "'o \<Rightarrow> 'o heap \<Rightarrow> nat \<times> 'o heap" where
  "alloc v h = (next_addr h, h\<lparr>cells := (cells h)(next_addr h := v), next_addr := Suc (next_addr h)\<rparr>)"

definition store :: "nat \<Rightarrow> 'o \<Rightarrow> 'o heap \<Rightarrow> 'o heap" where
  "store a v h = h\<lparr>cells := (cells h)(a := v)\<rparr>"

text \<open>\<open>int(s)\<close> on a string of decimal digits.\<close>

definition int_of_digits :: "python \<Rightarrow> str \<Rightarrow> int" where
  "int_of_digits py s = foldl (\<lambda>a c. 10 * a + digit_value py c) 0 s"

subsection \<open>Base variant\<close>

text \<open>
  \<open>re.search(r"Finished converting pages (\d+)/(\d+)", s)\<close>: the match that starts at
  the first character, with both groups as long as they can be, tried at each position
  from the left.
\<close>

definition pages_literal :: str where
  "pages_literal = u ''Finished converting pages ''"

definition match_pages :: "python \<Rightarrow> str \<Rightarrow> (str \<times> str) option" where
  "match_pages py s =
     (if starts_with pages_literal s
      then let r = drop (length pages_literal) s;
               g1 = takeWhile (is_decimal py) r;
               r1 = dropWhile (is_decimal py) r
           in if g1 = [] then None
              else (case r1 of
                      [] \<Rightarrow> None
                    | c # r2 \<Rightarrow>
                        if c = 47
                        then let g2 = takeWhile (is_decimal py) r2
                             in if g2 = [] then None else Some (g1, g2)
                        else None)
      else None)"

fun search_pages :: "python \<Rightarrow> str \<Rightarrow> (str \<times> str) option" where
  "search_pages py [] = match_pages py []"
| "search_pages py (c # cs) =
     (case match_pages py (c # cs) of Some m \<Rightarrow> Some m | None \<Rightarrow> search_pages py cs)"

text \<open>
  The handler: the queued lines and the address of the current progress dictionary. The
  queue is never handed out, so its lines are kept in the handler itself.
\<close>

record LogCapture =
  log_queue :: "str list"
  page_progress :: nat

definition LogCapture_init :: "(string \<rightharpoonup> int) heap \<Rightarrow> LogCapture \<times> (string \<rightharpoonup> int) heap" where
  "LogCapture_init h =
     (let (a, h1) = alloc (map_of [(''current'', 0), (''total'', 0)]) h
      in (\<lparr>log_queue = [], page_progress = a\<rparr>, h1))"

definition emit ::
  "python \<Rightarrow> ('r \<Rightarrow> str) \<Rightarrow> 'r \<Rightarrow> LogCapture \<times> (string \<rightharpoonup> int) heap
     \<Rightarrow> LogCapture \<times> (string \<rightharpoonup> int) heap" where
  "emit py format record st =
     (let log_entry = format record;
          self = (fst st)\<lparr>log_queue := log_queue (fst st) @ [log_entry]\<rparr>
      in if contains (u ''Finished converting pages'') log_entry
         then (case search_pages py log_entry of
                 Some (g1, g2) \<Rightarrow>
                   let current = int_of_digits py g1;
                       total = int_of_digits py g2;
                       (a, h1) = alloc (map_of [(''current'', current), (''total'', total)]) (snd st)
                   in (self\<lparr>page_progress := a\<rparr>, h1)
               | None \<Rightarrow> (self, snd st))
         else (self, snd st))"

definition get_logs :: "LogCapture \<Rightarrow> str list \<times> LogCapture" where
  "get_logs self = (log_queue self, self\<lparr>log_queue := []\<rparr>)"

text \<open>\<open>self.page_progress.copy()\<close>: a new dictionary with the same items.\<close>

definition get_page_progress ::
  "LogCapture \<Rightarrow> (string \<rightharpoonup> int) heap \<Rightarrow> nat \<times> (string \<rightharpoonup> int) heap" where
  "get_page_progress self h = alloc (cells h (page_progress self)) h"

subsection \<open>Enhanced variant\<close>

text \<open>\<open>re.search(r'page\s*(\d+)', s)\<close>, in the same way.\<close>

definition match_page :: "python \<Rightarrow> str \<Rightarrow> str option" where
  "match_page py s =
     (if starts_with (u ''page'') s
      then let g = takeWhile (is_decimal py) (dropWhile (is_space py) (drop 4 s))
           in if g = [] then None else Some g
      else None)"

fun search_page :: "python \<Rightarrow> str \<Rightarrow> str option" where
  "search_page py [] = match_page py []"
| "search_page py (c # cs) =
     (case match_page py (c # cs) of Some g \<Rightarrow> Some g | None \<Rightarrow> search_page py cs)"

text \<open>
  The handler holds the addresses of its list of lines and of its dictionary from page
  numbers to lines; both are changed in place. Lists and dictionaries have a heap each.
\<close>

record LogCapture_enh =
  logs :: nat
  page_progress_enh :: nat

record heaps =
  lists :: "str list heap"
  dicts :: "(int \<rightharpoonup> str) heap"

definition LogCapture_enh_init :: "heaps \<Rightarrow> LogCapture_enh \<times> heaps" where
  "LogCapture_enh_init hs =
     (let (l, lh) = alloc [] (lists hs);
          (d, dh) = alloc Map.empty (dicts hs)
      in (\<lparr>logs = l, page_progress_enh = d\<rparr>, \<lparr>lists = lh, dicts = dh\<rparr>))"

definition emit_enh :: "python \<Rightarrow> ('r \<Rightarrow> str) \<Rightarrow> 'r \<Rightarrow> LogCapture_enh \<Rightarrow> heaps \<Rightarrow> heaps" where
  "emit_enh py format record self hs =
     (let log_entry = format record;
          lh = store (logs self) (cells (lists hs) (logs self) @ [log_entry]) (lists hs)
      in if contains (u ''page'') (lower py log_entry)
            \<and> list_ex (\<lambda>word. contains word (lower py log_entry))
                 [u ''processing'', u ''converting'', u ''extracting'']
         then (case search_page py (lower py log_entry) of
                 Some g \<Rightarrow>
                   let page_num = int_of_digits py g;
                       d = page_progress_enh self
                   in \<lparr>lists = lh,
                       dicts = store d ((cells (dicts hs) d)(page_num \<mapsto> log_entry)) (dicts hs)\<rparr>
               | None \<Rightarrow> hs\<lparr>lists := lh\<rparr>)
         else hs\<lparr>lists := lh\<rparr>)"

definition get_logs_enh :: "LogCapture_enh \<Rightarrow> heaps \<Rightarrow> nat \<times> heaps" where
  "get_logs_enh self hs =
     (let (a, lh) = alloc (cells (lists hs) (logs self)) (lists hs) in (a, hs\<lparr>lists := lh\<rparr>))"

definition clear_logs :: "LogCapture_enh \<Rightarrow> heaps \<Rightarrow> heaps" where
  "clear_logs self hs =
     \<lparr>lists = store (logs self) [] (lists hs),
      dicts = store (page_progress_enh self) Map.empty (dicts hs)\<rparr>"

definition get_page_progress_enh :: "LogCapture_enh \<Rightarrow> heaps \<Rightarrow> nat \<times> heaps" where
  "get_page_progress_enh self hs =
     (let (a, dh) = alloc (cells (dicts hs) (page_progress_enh self)) (dicts hs)
      in (a, hs\<lparr>dicts := dh\<rparr>))"

section \<open>Sample runs\<close>

text \<open>
  A runtime that treats the ASCII letters, digits and white space as Python does and
  leaves every other character alone.
\<close>

definition ascii_lower_chr :: "nat \<Rightarrow> nat" where
  "ascii_lower_chr c = (if 65 \<le> c \<and> c \<le> 90 then c + 32 else c)"

definition ascii_python :: python where
  "ascii_python =
     \<lparr>lower = map ascii_lower_chr,
      is_decimal = (\<lambda>c. 48 \<le> c \<and> c \<le> 57),
      digit_value = (\<lambda>c. int c - 48),
      is_space = (\<lambda>c. (9 \<le> c \<and> c \<le> 13) \<or> (28 \<le> c \<and> c \<le> 32))\<rparr>"

text \<open>
  A batch of uploads and collaborators that behave as follows: the table knows the
  formats 1 (pdf) and 2 (docx, dotx); the temporary file of a suffix \<open>s\<close> is
  \<open>/tmp/tmp0s\<close>; the converter raises \<open>ConversionError("boom")\<close> on the PDF and
  returns a two-page document otherwise; no unlink is refused; the k-th clock reading is k.
\<close>

definition example_document :: document where
  "example_document =
     \<lparr>export_to_markdown = Inr (u ''# Title''), export_to_html = Inr (u ''<h1>Title</h1>''),
      export_to_json = Inl (Exn ''AttributeError'' (u ''export_to_json'')),
      export_to_text = Inr (u ''Title''), pages = Some 2\<rparr>"

definition example_env :: "nat env" where
  "example_env =
     \<lparr>runtime = ascii_python,
      FormatToExtensions = [(1, [u ''pdf'']), (2, [u ''docx'', u ''dotx''])],
      NamedTemporaryFile = (\<lambda>files sfx. Inr (u ''/tmp/tmp0'' @ sfx)),
      converter_convert =
        (\<lambda>files p. if p = u ''/tmp/tmp0.pdf'' then Inl (Exn ''ConversionError'' (u ''boom''))
                    else Inr example_document),
      unlink_refused = (\<lambda>files p. None),
      now = (\<lambda>k. real k)\<rparr>"

definition example_pdf :: uploaded_file where
  "example_pdf = \<lparr>name = u ''a.pdf'', getvalue = u ''%PDF'', file_size = 4\<rparr>"

definition example_docx :: uploaded_file where
  "example_docx = \<lparr>name = u ''b.docx'', getvalue = u ''PK'', file_size = 2\<rparr>"

definition example_xyz :: uploaded_file where
  "example_xyz = \<lparr>name = u ''c.xyz'', getvalue = u ''?'', file_size = 1\<rparr>"

definition example_world :: world where
  "example_world = \<lparr>fs = Map.empty, clock = 0\<rparr>"

definition example_state :: run_state where
  "example_state = \<lparr>conversion_results = [], success_count = 0, the_world = example_world\<rparr>"

text \<open>The same collaborators, with a converter that cannot find its input file.\<close>

definition missing_file_exn :: exn where
  "missing_file_exn =
     Exn ''FileNotFoundError'' (u ''[Errno 2] No such file or directory: '' @ [39] @ u ''in.pdf'' @ [39])"

definition missing_file_env :: "nat env" where
  "missing_file_env = example_env\<lparr>converter_convert := (\<lambda>files p. Inl missing_file_exn)\<rparr>"

text \<open>The same collaborators, with a disk too full for a temporary file.\<close>

definition full_env :: "nat env" where
  "full_env =
     example_env\<lparr>NamedTemporaryFile := (\<lambda>files sfx. Inl (Exn ''OSError'' (u ''disk full'')))\<rparr>"

text \<open>The same collaborators, with a system that refuses every unlink.\<close>

definition locked_exn :: exn where
  "locked_exn = Exn ''PermissionError'' (u ''[WinError 32] file in use'')"

definition locked_env :: "nat env" where
  "locked_env = example_env\<lparr>unlink_refused := (\<lambda>files p. Some locked_exn)\<rparr>"


section \<open>Strings and paths: auxiliary facts\<close>

lemma str_split_not_Nil: "str_split d s \<noteq> []"
  by (cases s) auto

lemma length_str_split: "length (str_split d s) = Suc (length (filter (\<lambda>c. c = d) s))"
  by (induction s) (auto simp: str_split_not_Nil)

lemma str_split_no_sep: "d \<notin> set s \<Longrightarrow> str_split d s = [s]"
  by (induction s) auto

lemma last_str_split_append:
  "d \<notin> set b \<Longrightarrow> last (str_split d (a @ b)) = last (str_split d a) @ b"
proof (induction a)
  case Nil
  then show ?case by (simp add: str_split_no_sep)
next
  case (Cons c a)
  have len: "length (str_split d (a @ b)) = length (str_split d a)"
    using Cons.prems by (auto simp add: length_str_split filter_empty_conv)
  show ?case
  proof (cases "c = d")
    case True
    then show ?thesis using Cons by (simp add: str_split_not_Nil)
  next
    case False
    obtain x xs where R: "str_split d (a @ b) = x # xs"
      by (cases "str_split d (a @ b)") (auto simp: str_split_not_Nil)
    obtain y ys where R': "str_split d a = y # ys"
      by (cases "str_split d a") (auto simp: str_split_not_Nil)
    have "length xs = length ys" using len R R' by simp
    then have e: "xs = [] \<longleftrightarrow> ys = []" by auto
    show ?thesis using False Cons R R' e by auto
  qed
qed

lemma last_str_split_sep: "last (str_split d (a @ [d])) = []"
proof (induction a)
  case Nil
  then show ?case by simp
next
  case (Cons c a)
  have "length (str_split d (a @ [d])) \<ge> 2" by (simp add: length_str_split)
  then obtain x y ys where R: "str_split d (a @ [d]) = x # y # ys"
    by (cases "str_split d (a @ [d])"; cases "tl (str_split d (a @ [d]))") auto
  show ?case using Cons R by auto
qed

lemma last_str_split: "last (str_split d s) = rev (takeWhile (\<lambda>c. c \<noteq> d) (rev s))"
proof (induction s rule: rev_induct)
  case Nil
  then show ?case by simp
next
  case (snoc x xs)
  show ?case
  proof (cases "x = d")
    case True
    then show ?thesis by (simp add: last_str_split_sep)
  next
    case False
    then have "last (str_split d (xs @ [x])) = last (str_split d xs) @ [x]"
      by (intro last_str_split_append) simp
    then show ?thesis using False snoc by simp
  qed
qed

lemma str_split_map:
  assumes "\<And>c. f c = d \<longleftrightarrow> c = d"
  shows "str_split d (map f s) = map (map f) (str_split d s)"
proof (induction s)
  case Nil
  then show ?case by simp
next
  case (Cons c s)
  obtain x xs where R: "str_split d s = x # xs"
    by (cases "str_split d s") (auto simp: str_split_not_Nil)
  show ?case using Cons R assms by auto
qed

lemma str_split_subset: "x \<in> set (str_split d s) \<Longrightarrow> set x \<subseteq> set s"
proof (induction s arbitrary: x)
  case Nil
  then show ?case by simp
next
  case (Cons c s)
  obtain y ys where R: "str_split d s = y # ys"
    by (cases "str_split d s") (auto simp: str_split_not_Nil)
  have y: "set y \<subseteq> set s" using Cons.IH[of y] R by simp
  have ys: "\<And>z. z \<in> set ys \<Longrightarrow> set z \<subseteq> set s" using Cons.IH R by simp
  show ?case
  proof (cases "c = d")
    case True
    then show ?thesis using Cons.prems R y ys by auto
  next
    case False
    then have "x = c # y \<or> x \<in> set ys" using Cons.prems R by simp
    then show ?thesis using y ys by auto
  qed
qed

lemma last_str_split_nonempty:
  "s \<noteq> [] \<Longrightarrow> last s \<noteq> d \<Longrightarrow> last (str_split d s) \<noteq> []"
  by (cases s rule: rev_cases) (auto simp: last_str_split)

lemma last_str_split_empty:
  "s = [] \<or> last s = d \<Longrightarrow> last (str_split d s) = []"
  by (cases s rule: rev_cases) (auto simp: last_str_split)

lemma takeWhile_stop: "d \<notin> set a \<Longrightarrow> takeWhile (\<lambda>c. c \<noteq> d) (a @ d # b) = a"
  by (induction a) auto

lemma last_filter_keep:
  "xs \<noteq> [] \<Longrightarrow> P (last xs) \<Longrightarrow> filter P xs \<noteq> [] \<and> last (filter P xs) = last xs"
  by (cases xs rule: rev_cases) auto

lemma path_name_subset: "set (path_name p) \<subseteq> set p"
proof (cases "path_parts p = []")
  case True
  then show ?thesis by (simp add: path_name_def)
next
  case False
  then have "last (path_parts p) \<in> set (path_parts p)" by simp
  then have "last (path_parts p) \<in> set (str_split 47 p)" by (simp add: path_parts_def)
  then show ?thesis using False str_split_subset by (simp add: path_name_def)
qed

lemma suffix_subset: "set (suffix p) \<subseteq> set p"
proof -
  have "set (suffix p) \<subseteq> set (path_name p)"
    by (auto simp: suffix_def Let_def dest: in_set_dropD)
  then show ?thesis using path_name_subset by blast
qed

lemma path_name_last_part:
  assumes "CP = last (str_split 47 pre) @ 46 # ext" "47 \<notin> set ext"
    "last (str_split 47 pre) \<noteq> [] \<or> ext \<noteq> []"
  shows "path_name (pre @ 46 # ext) = CP"
proof -
  let ?P = "\<lambda>x::nat list. x \<noteq> [] \<and> x \<noteq> [46]"
  have l: "last (str_split 47 (pre @ 46 # ext)) = CP"
    unfolding assms(1) using assms(2) by (intro last_str_split_append) simp
  have ok: "?P (last (str_split 47 (pre @ 46 # ext)))"
    unfolding l assms(1) using assms(3) by (cases "last (str_split 47 pre)") auto
  have "filter ?P (str_split 47 (pre @ 46 # ext)) \<noteq> []
      \<and> last (filter ?P (str_split 47 (pre @ 46 # ext)))
          = last (str_split 47 (pre @ 46 # ext))"
    using ok by (intro last_filter_keep) (simp_all add: str_split_not_Nil)
  then show ?thesis by (simp add: path_name_def path_parts_def l)
qed

lemma rfind_ext: "d \<notin> set ext \<Longrightarrow> rfind d (n @ d # ext) = int (length n)"
  using takeWhile_stop[of d "rev ext" "rev n"] by (simp add: rfind_def)

lemma suffix_ext:
  assumes "pre \<noteq> []" "last pre \<noteq> 47" "ext \<noteq> []" "46 \<notin> set ext" "47 \<notin> set ext"
  shows "suffix (pre @ 46 # ext) = 46 # ext"
proof -
  let ?n = "last (str_split 47 pre)"
  have n: "?n \<noteq> []" using assms by (simp add: last_str_split_nonempty)
  have r: "rfind 46 (?n @ 46 # ext) = int (length ?n)"
    using assms(4) by (rule rfind_ext)
  have p: "path_name (pre @ 46 # ext) = ?n @ 46 # ext"
    using assms(5) n by (intro path_name_last_part) simp_all
  show ?thesis
    using assms(3) n by (simp add: suffix_def p r Let_def)
qed

lemma suffix_dot_first:
  assumes "pre = [] \<or> last pre = 47" "ext \<noteq> []" "46 \<notin> set ext" "47 \<notin> set ext"
  shows "suffix (pre @ 46 # ext) = []"
proof -
  have n: "last (str_split 47 pre) = []" using assms(1) by (rule last_str_split_empty)
  have p: "path_name (pre @ 46 # ext) = 46 # ext"
    using path_name_last_part[of "46 # ext" pre ext] assms n by simp
  have r: "rfind 46 (46 # ext) = 0"
    using rfind_ext[of 46 ext "[]"] assms(3) by simp
  show ?thesis by (simp add: suffix_def p r Let_def)
qed

lemma suffix_no_dot: "46 \<notin> set p \<Longrightarrow> suffix p = []"
proof -
  assume "46 \<notin> set p"
  then have "46 \<notin> set (path_name p)" using path_name_subset by blast
  then show ?thesis by (simp add: suffix_def rfind_def Let_def)
qed


lemma ascii_lower_chr_dot [simp]: "ascii_lower_chr c = 46 \<longleftrightarrow> c = 46"
  by (auto simp: ascii_lower_chr_def)

lemma ascii_lower_chr_slash [simp]: "ascii_lower_chr c = 47 \<longleftrightarrow> c = 47"
  by (auto simp: ascii_lower_chr_def)

lemma ascii_lower_chr_dot' [simp]: "46 = ascii_lower_chr c \<longleftrightarrow> c = 46"
  by (auto simp: ascii_lower_chr_def)

lemma dot_in_ascii_lower: "46 \<in> set (map ascii_lower_chr s) \<longleftrightarrow> 46 \<in> set s"
  by (induction s) auto

lemma path_parts_ascii_lower:
  "path_parts (map ascii_lower_chr p) = map (map ascii_lower_chr) (path_parts p)"
proof -
  have "str_split 47 (map ascii_lower_chr p) = map (map ascii_lower_chr) (str_split 47 p)"
    by (rule str_split_map) simp
  moreover have "\<And>x. (map ascii_lower_chr x \<noteq> [] \<and> map ascii_lower_chr x \<noteq> [46])
      = (x \<noteq> [] \<and> x \<noteq> [46])"
    by (auto simp: map_eq_Cons_conv)
  ultimately show ?thesis
    by (simp add: path_parts_def filter_map comp_def)
qed

lemma path_name_ascii_lower:
  "path_name (map ascii_lower_chr p) = map ascii_lower_chr (path_name p)"
  by (simp add: path_name_def path_parts_ascii_lower last_map)

lemma rfind_ascii_lower: "rfind 46 (map ascii_lower_chr s) = rfind 46 s"
proof -
  have "takeWhile (\<lambda>c. c \<noteq> 46) (rev (map ascii_lower_chr s))
        = map ascii_lower_chr (takeWhile (\<lambda>c. c \<noteq> 46) (rev s))"
    by (simp add: rev_map takeWhile_map comp_def)
  moreover have "46 \<in> set (map ascii_lower_chr s) \<longleftrightarrow> 46 \<in> set s"
    by (rule dot_in_ascii_lower)
  ultimately show ?thesis
    by (simp add: rfind_def del: set_map)
qed

lemma suffix_ascii_lower: "suffix (map ascii_lower_chr p) = map ascii_lower_chr (suffix p)"
  by (simp add: suffix_def path_name_ascii_lower rfind_ascii_lower Let_def drop_map)

lemma find_format_None: "find_format fte e = None \<longleftrightarrow> (\<forall>(f, exts) \<in> set fte. e \<notin> set exts)"
  by (induction fte e rule: find_format.induct) auto

lemma find_format_first:
  "(\<forall>(f', exts') \<in> set a. e \<notin> set exts') \<Longrightarrow> e \<in> set exts
     \<Longrightarrow> find_format (a @ (fm, exts) # b) e = Some fm"
  by (induction a) auto

lemma get_file_format_text_after_dot:
  "get_file_format py fte filename =
     (if filename = [] then None
      else find_format fte (rev (takeWhile (\<lambda>c. c \<noteq> 46) (rev (lower py filename)))))"
  by (simp add: get_file_format_def last_str_split)

lemma get_file_format_lowered_ext:
  assumes "f \<noteq> []" "lower py f = a @ 46 # e" "46 \<notin> set e"
  shows "get_file_format py fte f = find_format fte e"
  using assms takeWhile_stop[of 46 "rev e" "rev a"]
  by (simp add: get_file_format_text_after_dot)

lemma get_file_format_lowered_dotless:
  assumes "f \<noteq> []" "46 \<notin> set (lower py f)"
  shows "get_file_format py fte f = find_format fte (lower py f)"
  using assms by (simp add: get_file_format_def str_split_no_sep)

lemma get_file_format_same_lower:
  "f \<noteq> [] \<Longrightarrow> g \<noteq> [] \<Longrightarrow> lower py f = lower py g
     \<Longrightarrow> get_file_format py fte f = get_file_format py fte g"
  by (simp add: get_file_format_def)

lemma get_file_format_enh_ext:
  assumes "pre \<noteq> []" "last pre \<noteq> 47" "ext \<noteq> []" "46 \<notin> set ext" "47 \<notin> set ext"
  shows "get_file_format_enh py (pre @ 46 # ext) = map_of format_mapping (lower py (46 # ext))"
  using suffix_ext[OF assms] by (simp add: get_file_format_enh_def)

lemma get_file_format_enh_dot_first:
  assumes "pre = [] \<or> last pre = 47" "ext \<noteq> []" "46 \<notin> set ext" "47 \<notin> set ext"
  shows "get_file_format_enh py (pre @ 46 # ext) = map_of format_mapping (lower py [])"
  using suffix_dot_first[OF assms] by (simp add: get_file_format_enh_def)

lemma get_file_format_enh_dotless:
  "46 \<notin> set f \<Longrightarrow> get_file_format_enh py f = map_of format_mapping (lower py [])"
  by (simp add: get_file_format_enh_def suffix_no_dot)

lemma map_of_format_mapping_Nil: "map_of format_mapping [] = None"
  by (simp add: format_mapping_def u_def)

lemma ascii_case_variants:
  assumes A: "\<forall>s. (\<forall>c \<in> set s. c < 128) \<longrightarrow> lower py s = map ascii_lower_chr s"
    and f: "\<forall>c \<in> set f. c < 128" and g: "\<forall>c \<in> set g. c < 128"
    and e: "map ascii_lower_chr f = map ascii_lower_chr g"
  shows "get_file_format py fte f = get_file_format py fte g
       \<and> get_file_format_enh py f = get_file_format_enh py g"
proof
  have lf: "lower py f = map ascii_lower_chr f" using A f by blast
  have lg: "lower py g = map ascii_lower_chr g" using A g by blast
  have n: "f = [] \<longleftrightarrow> g = []" using e by (metis map_is_Nil_conv)
  show "get_file_format py fte f = get_file_format py fte g"
    using n by (simp add: get_file_format_def lf lg e)
  have sf: "\<forall>c \<in> set (suffix f). c < 128" using f suffix_subset[of f] by blast
  have sg: "\<forall>c \<in> set (suffix g). c < 128" using g suffix_subset[of g] by blast
  have "lower py (suffix f) = map ascii_lower_chr (suffix f)" using A sf by blast
  moreover have "lower py (suffix g) = map ascii_lower_chr (suffix g)" using A sg by blast
  moreover have "map ascii_lower_chr (suffix f) = map ascii_lower_chr (suffix g)"
    using e by (simp add: suffix_ascii_lower[symmetric])
  ultimately show "get_file_format_enh py f = get_file_format_enh py g"
    by (simp add: get_file_format_enh_def)
qed

lemma ascii_ext:
  assumes A: "\<forall>s. (\<forall>c \<in> set s. c < 128) \<longrightarrow> lower py s = map ascii_lower_chr s"
    and p: "\<forall>c \<in> set pre. c < 128" and x: "\<forall>c \<in> set ext. c < 128" and d: "46 \<notin> set ext"
  shows "get_file_format py fte (pre @ 46 # ext) = find_format fte (map ascii_lower_chr ext)"
proof -
  have "\<forall>c \<in> set (pre @ 46 # ext). c < 128" using p x by auto
  then have "lower py (pre @ 46 # ext) = map ascii_lower_chr (pre @ 46 # ext)" using A by blast
  then have l: "lower py (pre @ 46 # ext) = map ascii_lower_chr pre @ 46 # map ascii_lower_chr ext"
    by (simp add: ascii_lower_chr_def)
  have "46 \<notin> set (map ascii_lower_chr ext)"
    using d by (simp only: dot_in_ascii_lower not_False_eq_True)
  then show ?thesis by (intro get_file_format_lowered_ext[OF _ l]) simp_all
qed


section \<open>Claims about the file format\<close>

text \<open>
  C10 (as amended). \<open>get_file_format\<close> depends on the lowercased extension only. In the
  base variant it returns \<open>None\<close> for the empty filename; otherwise the extension is the
  text after the last dot of \<open>filename.lower()\<close> (all of it when it has no dot), so the
  part before that dot does not matter and two names with the same \<open>lower()\<close> get the same
  result; the result is the first format of the table whose list holds that extension,
  \<open>None\<close> when no list holds it. In the enhanced variant the result is the entry of the
  fixed table for \<open>Path(filename).suffix.lower()\<close>, \<open>None\<close> when the table has no such
  key: two names whose suffixes lowercase alike get the same result; when the part before
  the last dot is not empty and does not end with a slash (and the extension is not empty
  and has no slash) the suffix is the dot with the extension; a name without a dot, and a
  name whose last dot comes first in its last component, have the empty suffix, which gives
  \<open>None\<close> (also for the empty filename). For names of ASCII characters, on a runtime
  whose \<open>lower\<close> lowers the ASCII letters, changing the case of letters changes neither
  result, and the base result for \<open>pre.ext\<close> is that of the lowered \<open>ext\<close>.
\<close>

theorem get_file_format_by_extension:
  "get_file_format py fte [] = None
   \<and> (f \<noteq> [] \<longrightarrow>
        get_file_format py fte f
          = find_format fte (rev (takeWhile (\<lambda>c. c \<noteq> 46) (rev (lower py f)))))
   \<and> (f \<noteq> [] \<and> lower py f = a @ 46 # e \<and> 46 \<notin> set e \<longrightarrow>
        get_file_format py fte f = find_format fte e)
   \<and> (f \<noteq> [] \<and> 46 \<notin> set (lower py f) \<longrightarrow>
        get_file_format py fte f = find_format fte (lower py f))
   \<and> (f \<noteq> [] \<and> g \<noteq> [] \<and> lower py f = lower py g \<longrightarrow>
        get_file_format py fte f = get_file_format py fte g)
   \<and> ((\<forall>(fm', exts') \<in> set fte. x \<notin> set exts') \<longrightarrow> find_format fte x = None)
   \<and> ((\<forall>(fm', exts') \<in> set before. x \<notin> set exts') \<and> x \<in> set exts \<longrightarrow>
        find_format (before @ (fm, exts) # after) x = Some fm)
   \<and> get_file_format_enh py f = map_of format_mapping (lower py (suffix f))
   \<and> (lower py (suffix f) = lower py (suffix g) \<longrightarrow>
        get_file_format_enh py f = get_file_format_enh py g)
   \<and> (pre \<noteq> [] \<and> last pre \<noteq> 47 \<and> ext \<noteq> [] \<and> 46 \<notin> set ext \<and> 47 \<notin> set ext \<longrightarrow>
        suffix (pre @ 46 # ext) = 46 # ext
        \<and> get_file_format_enh py (pre @ 46 # ext) = map_of format_mapping (lower py (46 # ext)))
   \<and> ((pre = [] \<or> last pre = 47) \<and> ext \<noteq> [] \<and> 46 \<notin> set ext \<and> 47 \<notin> set ext \<longrightarrow>
        suffix (pre @ 46 # ext) = []
        \<and> get_file_format_enh py (pre @ 46 # ext) = map_of format_mapping (lower py []))
   \<and> (46 \<notin> set f \<longrightarrow>
        suffix f = [] \<and> get_file_format_enh py f = map_of format_mapping (lower py []))
   \<and> (lower py [] = [] \<longrightarrow>
        map_of format_mapping (lower py []) = None \<and> get_file_format_enh py [] = None)
   \<and> (k \<notin> fst ` set format_mapping \<longrightarrow> map_of format_mapping k = None)
   \<and> ((k, v) \<in> set format_mapping \<longrightarrow> map_of format_mapping k = Some v)
   \<and> ((\<forall>s. (\<forall>c \<in> set s. c < 128) \<longrightarrow> lower py s = map ascii_lower_chr s)
        \<and> (\<forall>c \<in> set f. c < 128) \<and> (\<forall>c \<in> set g. c < 128)
        \<and> map ascii_lower_chr f = map ascii_lower_chr g \<longrightarrow>
        get_file_format py fte f = get_file_format py fte g
        \<and> get_file_format_enh py f = get_file_format_enh py g)
   \<and> ((\<forall>s. (\<forall>c \<in> set s. c < 128) \<longrightarrow> lower py s = map ascii_lower_chr s)
        \<and> (\<forall>c \<in> set pre. c < 128) \<and> (\<forall>c \<in> set ext. c < 128) \<and> 46 \<notin> set ext \<longrightarrow>
        get_file_format py fte (pre @ 46 # ext) = find_format fte (map ascii_lower_chr ext))"
proof -
  have c1: "get_file_format py fte [] = None" by (simp add: get_file_format_def)
  have c2: "f \<noteq> [] \<longrightarrow>
        get_file_format py fte f
          = find_format fte (rev (takeWhile (\<lambda>c. c \<noteq> 46) (rev (lower py f))))"
    by (simp add: get_file_format_text_after_dot)
  have c3: "f \<noteq> [] \<and> lower py f = a @ 46 # e \<and> 46 \<notin> set e \<longrightarrow>
        get_file_format py fte f = find_format fte e"
    using get_file_format_lowered_ext[of f py a e fte] by blast
  have c4: "f \<noteq> [] \<and> 46 \<notin> set (lower py f) \<longrightarrow>
        get_file_format py fte f = find_format fte (lower py f)"
    using get_file_format_lowered_dotless[of f py fte] by blast
  have c5: "f \<noteq> [] \<and> g \<noteq> [] \<and> lower py f = lower py g \<longrightarrow>
        get_file_format py fte f = get_file_format py fte g"
    using get_file_format_same_lower[of f g py fte] by blast
  have c6: "(\<forall>(fm', exts') \<in> set fte. x \<notin> set exts') \<longrightarrow> find_format fte x = None"
    by (simp add: find_format_None)
  have c7: "(\<forall>(fm', exts') \<in> set before. x \<notin> set exts') \<and> x \<in> set exts \<longrightarrow>
        find_format (before @ (fm, exts) # after) x = Some fm"
    using find_format_first[of before x exts fm after] by blast
  have c8: "get_file_format_enh py f = map_of format_mapping (lower py (suffix f))"
    by (simp add: get_file_format_enh_def)
  have c9: "lower py (suffix f) = lower py (suffix g) \<longrightarrow>
        get_file_format_enh py f = get_file_format_enh py g"
    by (simp add: get_file_format_enh_def)
  have c10: "pre \<noteq> [] \<and> last pre \<noteq> 47 \<and> ext \<noteq> [] \<and> 46 \<notin> set ext \<and> 47 \<notin> set ext \<longrightarrow>
        suffix (pre @ 46 # ext) = 46 # ext
        \<and> get_file_format_enh py (pre @ 46 # ext) = map_of format_mapping (lower py (46 # ext))"
    using suffix_ext[of pre ext] get_file_format_enh_ext[of pre ext py] by blast
  have c11: "(pre = [] \<or> last pre = 47) \<and> ext \<noteq> [] \<and> 46 \<notin> set ext \<and> 47 \<notin> set ext \<longrightarrow>
        suffix (pre @ 46 # ext) = []
        \<and> get_file_format_enh py (pre @ 46 # ext) = map_of format_mapping (lower py [])"
    using suffix_dot_first[of pre ext] get_file_format_enh_dot_first[of pre ext py] by blast
  have c12: "46 \<notin> set f \<longrightarrow>
        suffix f = [] \<and> get_file_format_enh py f = map_of format_mapping (lower py [])"
    using suffix_no_dot[of f] get_file_format_enh_dotless[of f py] by blast
  have c13: "lower py [] = [] \<longrightarrow>
        map_of format_mapping (lower py []) = None \<and> get_file_format_enh py [] = None"
    using get_file_format_enh_dotless[of "[]" py] by (simp add: map_of_format_mapping_Nil)
  have c14: "k \<notin> fst ` set format_mapping \<longrightarrow> map_of format_mapping k = None"
    by (simp add: map_of_eq_None_iff)
  have c15: "(k, v) \<in> set format_mapping \<longrightarrow> map_of format_mapping k = Some v"
  proof -
    have "distinct (map fst format_mapping)" by (simp add: format_mapping_def u_def)
    then show ?thesis by simp
  qed
  have c16: "(\<forall>s. (\<forall>c \<in> set s. c < 128) \<longrightarrow> lower py s = map ascii_lower_chr s)
        \<and> (\<forall>c \<in> set f. c < 128) \<and> (\<forall>c \<in> set g. c < 128)
        \<and> map ascii_lower_chr f = map ascii_lower_chr g \<longrightarrow>
        get_file_format py fte f = get_file_format py fte g
        \<and> get_file_format_enh py f = get_file_format_enh py g"
    using ascii_case_variants[of py f g fte] by blast
  have c17: "(\<forall>s. (\<forall>c \<in> set s. c < 128) \<longrightarrow> lower py s = map ascii_lower_chr s)
        \<and> (\<forall>c \<in> set pre. c < 128) \<and> (\<forall>c \<in> set ext. c < 128) \<and> 46 \<notin> set ext \<longrightarrow>
        get_file_format py fte (pre @ 46 # ext) = find_format fte (map ascii_lower_chr ext)"
    using ascii_ext[of py pre ext fte] by blast
  show ?thesis
    by (intro conjI, rule c1, rule c2, rule c3, rule c4, rule c5, rule c6, rule c7, rule c8,
        rule c9, rule c10, rule c11, rule c12, rule c13, rule c14, rule c15, rule c16, rule c17)
qed

text \<open>
  C10 as stated fails in the enhanced variant: removing the text before the last dot of
  \<open>a.pdf\<close> changes the result.
\<close>

theorem get_file_format_enh_dotfile_counterexample:
  "get_file_format_enh ascii_python (u ''a.pdf'') = Some (u ''PDF'')
   \<and> get_file_format_enh ascii_python (u ''.pdf'') = None"
  by (simp add: get_file_format_enh_def suffix_def path_name_def path_parts_def rfind_def
      ascii_python_def ascii_lower_chr_def format_mapping_def u_def)


theorem get_file_format_by_extension_witness:
  "get_file_format ascii_python [(1::nat, [u ''pdf'']), (2, [u ''docx'', u ''dotx''])] (u ''Report.PDF'')
     = find_format [(1::nat, [u ''pdf'']), (2, [u ''docx'', u ''dotx''])] (u ''pdf'')
   \<and> get_file_format ascii_python [(1::nat, [u ''pdf'']), (2, [u ''docx'', u ''dotx''])] (u ''pdf'')
     = find_format [(1::nat, [u ''pdf'']), (2, [u ''docx'', u ''dotx''])] (u ''pdf'')
   \<and> get_file_format ascii_python [(1::nat, [u ''pdf'']), (2, [u ''docx'', u ''dotx''])] (u ''Report.PDF'')
     = get_file_format ascii_python [(1::nat, [u ''pdf'']), (2, [u ''docx'', u ''dotx''])] (u ''report.pdf'')
   \<and> find_format [(1::nat, [u ''pdf'']), (2, [u ''docx'', u ''dotx''])] (u ''odt'') = None
   \<and> find_format ([(1::nat, [u ''pdf''])] @ (2, [u ''docx'', u ''dotx'']) # []) (u ''dotx'') = Some 2
   \<and> get_file_format_enh ascii_python (u ''Report.PDF'')
     = get_file_format_enh ascii_python (u ''report.pdf'')
   \<and> suffix (u ''Report'' @ 46 # u ''PDF'') = 46 # u ''PDF''
   \<and> get_file_format_enh ascii_python (u ''Report'' @ 46 # u ''PDF'')
     = map_of format_mapping (lower ascii_python (46 # u ''PDF''))
   \<and> suffix ([] @ 46 # u ''pdf'') = []
   \<and> get_file_format_enh ascii_python (u ''notes'') = map_of format_mapping (lower ascii_python [])
   \<and> get_file_format_enh ascii_python [] = None
   \<and> map_of format_mapping (u ''.odt'') = None
   \<and> map_of format_mapping (u ''.htm'') = Some (u ''HTML'')
   \<and> get_file_format ascii_python [(1::nat, [u ''pdf'']), (2, [u ''docx'', u ''dotx''])]
        (u ''Report'' @ 46 # u ''PDF'')
     = find_format [(1::nat, [u ''pdf'']), (2, [u ''docx'', u ''dotx''])] (map ascii_lower_chr (u ''PDF''))"
proof -
  let ?T = "[(1::nat, [u ''pdf'']), (2, [u ''docx'', u ''dotx''])]"
  note A = get_file_format_by_extension[where py = ascii_python and fte = ?T
      and f = "u ''Report.PDF''" and g = "u ''report.pdf''" and a = "u ''report''"
      and e = "u ''pdf''" and x = "u ''odt''" and pre = "u ''Report''" and ext = "u ''PDF''"
      and k = "u ''.odt''"]
  note B = get_file_format_by_extension[where py = ascii_python and fte = ?T
      and f = "u ''pdf''" and x = "u ''dotx''" and before = "[(1::nat, [u ''pdf''])]"
      and fm = "2::nat" and exts = "[u ''docx'', u ''dotx'']" and after = "[]"
      and pre = "[]" and ext = "u ''pdf''" and k = "u ''.htm''" and v = "u ''HTML''"]
  note C = get_file_format_by_extension[where py = ascii_python and f = "u ''notes''"]
  have asc: "\<forall>s. (\<forall>c \<in> set s. c < 128) \<longrightarrow> lower ascii_python s = map ascii_lower_chr s"
    by (simp add: ascii_python_def)
  have h3: "u ''Report.PDF'' \<noteq> [] \<and> lower ascii_python (u ''Report.PDF'') = u ''report'' @ 46 # u ''pdf''
      \<and> 46 \<notin> set (u ''pdf'')"
    by (simp add: u_def ascii_python_def ascii_lower_chr_def)
  have w1: "get_file_format ascii_python ?T (u ''Report.PDF'') = find_format ?T (u ''pdf'')"
    by (rule mp[OF A[THEN conjunct2, THEN conjunct2, THEN conjunct1] h3])
  have h4: "u ''pdf'' \<noteq> [] \<and> 46 \<notin> set (lower ascii_python (u ''pdf''))"
    by (simp add: u_def ascii_python_def ascii_lower_chr_def)
  have w2: "get_file_format ascii_python ?T (u ''pdf'') = find_format ?T (lower ascii_python (u ''pdf''))"
    by (rule mp[OF B[THEN conjunct2, THEN conjunct2, THEN conjunct2, THEN conjunct1] h4])
  have l2: "lower ascii_python (u ''pdf'') = u ''pdf''"
    by (simp add: u_def ascii_python_def ascii_lower_chr_def)
  have h5: "u ''Report.PDF'' \<noteq> [] \<and> u ''report.pdf'' \<noteq> []
      \<and> lower ascii_python (u ''Report.PDF'') = lower ascii_python (u ''report.pdf'')"
    by (simp add: u_def ascii_python_def ascii_lower_chr_def)
  have w3: "get_file_format ascii_python ?T (u ''Report.PDF'')
     = get_file_format ascii_python ?T (u ''report.pdf'')"
    by (rule mp[OF A[THEN conjunct2, THEN conjunct2, THEN conjunct2, THEN conjunct2, THEN conjunct1] h5])
  have h6: "\<forall>(fm', exts') \<in> set ?T. u ''odt'' \<notin> set exts'"
    by (simp add: u_def)
  have w4: "find_format ?T (u ''odt'') = None"
    by (rule mp[OF A[THEN conjunct2, THEN conjunct2, THEN conjunct2, THEN conjunct2, THEN conjunct2, THEN conjunct1] h6])
  have h7: "(\<forall>(fm', exts') \<in> set [(1::nat, [u ''pdf''])]. u ''dotx'' \<notin> set exts')
      \<and> u ''dotx'' \<in> set [u ''docx'', u ''dotx'']"
    by (simp add: u_def)
  have w5: "find_format ([(1::nat, [u ''pdf''])] @ (2, [u ''docx'', u ''dotx'']) # []) (u ''dotx'') = Some 2"
    by (rule mp[OF B[THEN conjunct2, THEN conjunct2, THEN conjunct2, THEN conjunct2, THEN conjunct2, THEN conjunct2, THEN conjunct1] h7])
  have h16: "(\<forall>s. (\<forall>c \<in> set s. c < 128) \<longrightarrow> lower ascii_python s = map ascii_lower_chr s)
        \<and> (\<forall>c \<in> set (u ''Report.PDF''). c < 128) \<and> (\<forall>c \<in> set (u ''report.pdf''). c < 128)
        \<and> map ascii_lower_chr (u ''Report.PDF'') = map ascii_lower_chr (u ''report.pdf'')"
    using asc by (simp add: u_def ascii_lower_chr_def)
  have w6: "get_file_format_enh ascii_python (u ''Report.PDF'')
     = get_file_format_enh ascii_python (u ''report.pdf'')"
    by (rule conjunct2[OF mp[OF A[THEN conjunct2, THEN conjunct2, THEN conjunct2, THEN conjunct2, THEN conjunct2, THEN conjunct2, THEN conjunct2, THEN conjunct2, THEN conjunct2, THEN conjunct2, THEN conjunct2, THEN conjunct2, THEN conjunct2, THEN conjunct2, THEN conjunct2, THEN conjunct1] h16]])
  have h10: "u ''Report'' \<noteq> [] \<and> last (u ''Report'') \<noteq> 47 \<and> u ''PDF'' \<noteq> []
      \<and> 46 \<notin> set (u ''PDF'') \<and> 47 \<notin> set (u ''PDF'')"
    by (simp add: u_def)
  note r10 = mp[OF A[THEN conjunct2, THEN conjunct2, THEN conjunct2, THEN conjunct2, THEN conjunct2, THEN conjunct2, THEN conjunct2, THEN conjunct2, THEN conjunct2, THEN conjunct1] h10]
  have h11: "([] = [] \<or> last [] = (47::nat)) \<and> u ''pdf'' \<noteq> []
      \<and> 46 \<notin> set (u ''pdf'') \<and> 47 \<notin> set (u ''pdf'')"
    by (simp add: u_def)
  note r11 = mp[OF B[THEN conjunct2, THEN conjunct2, THEN conjunct2, THEN conjunct2, THEN conjunct2, THEN conjunct2, THEN conjunct2, THEN conjunct2, THEN conjunct2, THEN conjunct2, THEN conjunct1] h11]
  have h12: "46 \<notin> set (u ''notes'')" by (simp add: u_def)
  note r12 = mp[OF C[THEN conjunct2, THEN conjunct2, THEN conjunct2, THEN conjunct2, THEN conjunct2, THEN conjunct2, THEN conjunct2, THEN conjunct2, THEN conjunct2, THEN conjunct2, THEN conjunct2, THEN conjunct1] h12]
  have h13: "lower ascii_python [] = []" by (simp add: ascii_python_def)
  note r13 = mp[OF A[THEN conjunct2, THEN conjunct2, THEN conjunct2, THEN conjunct2, THEN conjunct2, THEN conjunct2, THEN conjunct2, THEN conjunct2, THEN conjunct2, THEN conjunct2, THEN conjunct2, THEN conjunct2, THEN conjunct1] h13]
  have h14: "u ''.odt'' \<notin> fst ` set format_mapping" by (simp add: format_mapping_def u_def)
  have w12: "map_of format_mapping (u ''.odt'') = None"
    by (rule mp[OF A[THEN conjunct2, THEN conjunct2, THEN conjunct2, THEN conjunct2, THEN conjunct2, THEN conjunct2, THEN conjunct2, THEN conjunct2, THEN conjunct2, THEN conjunct2, THEN conjunct2, THEN conjunct2, THEN conjunct2, THEN conjunct1] h14])
  have h15: "(u ''.htm'', u ''HTML'') \<in> set format_mapping" by (simp add: format_mapping_def)
  have w13: "map_of format_mapping (u ''.htm'') = Some (u ''HTML'')"
    by (rule mp[OF B[THEN conjunct2, THEN conjunct2, THEN conjunct2, THEN conjunct2, THEN conjunct2, THEN conjunct2, THEN conjunct2, THEN conjunct2, THEN conjunct2, THEN conjunct2, THEN conjunct2, THEN conjunct2, THEN conjunct2, THEN conjunct2, THEN conjunct1] h15])
  have h17: "(\<forall>s. (\<forall>c \<in> set s. c < 128) \<longrightarrow> lower ascii_python s = map ascii_lower_chr s)
        \<and> (\<forall>c \<in> set (u ''Report''). c < 128) \<and> (\<forall>c \<in> set (u ''PDF''). c < 128)
        \<and> 46 \<notin> set (u ''PDF'')"
    using asc by (simp add: u_def)
  have w14: "get_file_format ascii_python ?T (u ''Report'' @ 46 # u ''PDF'')
     = find_format ?T (map ascii_lower_chr (u ''PDF''))"
    by (rule mp[OF A[THEN conjunct2, THEN conjunct2, THEN conjunct2, THEN conjunct2, THEN conjunct2, THEN conjunct2, THEN conjunct2, THEN conjunct2, THEN conjunct2, THEN conjunct2, THEN conjunct2, THEN conjunct2, THEN conjunct2, THEN conjunct2, THEN conjunct2, THEN conjunct2] h17])
  show ?thesis
    using w1 w2 w3 w4 w5 w6 r10 r11 r12 r13 w12 w13 w14 by (simp only: l2 simp_thms)
qed


section \<open>The conversion loops: auxiliary facts\<close>

lemma try_body_cases:
  assumes a: "\<And>w'. P (None, rs @ [unsupported_record (name uf)], w')"
    and b: "\<And>e w'. P (Some e, rs, w')"
    and c: "\<And>c n t' w'. P (None, rs @ [success_record (name uf) c fmt n t'], w')"
    and d: "\<And>e c n t' w'. P (Some e, rs @ [success_record (name uf) c fmt n t'], w')"
  shows "P (try_body env fmt uf t rs w)"
proof (cases "get_file_format (runtime env) (FormatToExtensions env) (name uf)")
  case None
  then show ?thesis by (simp add: try_body_def a)
next
  case (Some ff)
  note ff = this
  show ?thesis
  proof (cases "NamedTemporaryFile env (fs w) (u ''.'' @ last (str_split 46 (name uf)))")
    case (Inl e)
    with ff show ?thesis by (simp add: try_body_def b)
  next
    case (Inr p)
    note tmp = this
    show ?thesis
    proof (cases "converter_convert env ((fs w)(p \<mapsto> getvalue uf)) p")
      case (Inl e)
      with ff tmp show ?thesis by (simp add: try_body_def b)
    next
      case (Inr result)
      note conv = this
      show ?thesis
      proof (cases "export result fmt")
        case (Inl e)
        with ff tmp conv show ?thesis by (simp add: try_body_def b)
      next
        case (Inr content)
        with ff tmp conv show ?thesis
          by (simp add: try_body_def time_time_def Let_def c d split: sum.split)
      qed
    qed
  qed
qed

lemma loop_body_unfold:
  "loop_body env fmt uf (rs, w) =
     (case try_body env fmt uf (now env (clock w)) rs (w\<lparr>clock := Suc (clock w)\<rparr>) of
        (None, rs1, w1) \<Rightarrow> (rs1, w1)
      | (Some e, rs1, w1) \<Rightarrow>
          (rs1 @ [error_record (name uf) (str_e e) (now env (clock w1) - now env (clock w))],
           w1\<lparr>clock := Suc (clock w1)\<rparr>))"
  by (simp add: loop_body_def time_time_def split: prod.split option.split)

lemma loop_body_raise:
  assumes "try_body env fmt uf (now env (clock w)) rs (w\<lparr>clock := Suc (clock w)\<rparr>) = (Some e, rs1, w1)"
  shows "loop_body env fmt uf (rs, w) =
           (rs1 @ [error_record (name uf) (str_e e) (now env (clock w1) - now env (clock w))],
            w1\<lparr>clock := Suc (clock w1)\<rparr>)"
  by (simp add: loop_body_unfold assms)

lemma loop_body_return:
  assumes "try_body env fmt uf (now env (clock w)) rs (w\<lparr>clock := Suc (clock w)\<rparr>) = (None, rs1, w1)"
  shows "loop_body env fmt uf (rs, w) = (rs1, w1)"
  by (simp add: loop_body_unfold assms)

lemma loop_body_cases:
  assumes a: "\<And>w'. P (rs @ [unsupported_record (name uf)], w')"
    and b: "\<And>e t' w'. P (rs @ [error_record (name uf) (str_e e) t'], w')"
    and c: "\<And>c n t' w'. P (rs @ [success_record (name uf) c fmt n t'], w')"
    and d: "\<And>e c n t' t'' w'.
              P (rs @ [success_record (name uf) c fmt n t', error_record (name uf) (str_e e) t''], w')"
  shows "P (loop_body env fmt uf (rs, w))"
  unfolding loop_body_unfold
  by (rule try_body_cases) (simp_all add: a b c d)

text \<open>The raise points of the \<open>try\<close> body, one by one.\<close>

lemma try_body_unsupported:
  assumes "get_file_format (runtime env) (FormatToExtensions env) (name uf) = None"
  shows "try_body env fmt uf t rs w = (None, rs @ [unsupported_record (name uf)], w)"
  by (simp add: try_body_def assms)

lemma try_body_tmp_raises:
  assumes "get_file_format (runtime env) (FormatToExtensions env) (name uf) = Some ff"
    and "NamedTemporaryFile env (fs w) (u ''.'' @ last (str_split 46 (name uf))) = Inl e"
  shows "try_body env fmt uf t rs w = (Some e, rs, w)"
  by (simp add: try_body_def assms)

lemma try_body_convert_raises:
  assumes "get_file_format (runtime env) (FormatToExtensions env) (name uf) = Some ff"
    and "NamedTemporaryFile env (fs w) (u ''.'' @ last (str_split 46 (name uf))) = Inr p"
    and "converter_convert env ((fs w)(p \<mapsto> getvalue uf)) p = Inl e"
  shows "try_body env fmt uf t rs w = (Some e, rs, w\<lparr>fs := (fs w)(p \<mapsto> getvalue uf)\<rparr>)"
  by (simp add: try_body_def assms)

lemma try_body_export_raises:
  assumes "get_file_format (runtime env) (FormatToExtensions env) (name uf) = Some ff"
    and "NamedTemporaryFile env (fs w) (u ''.'' @ last (str_split 46 (name uf))) = Inr p"
    and "converter_convert env ((fs w)(p \<mapsto> getvalue uf)) p = Inr result"
    and "export result fmt = Inl e"
  shows "try_body env fmt uf t rs w = (Some e, rs, w\<lparr>fs := (fs w)(p \<mapsto> getvalue uf)\<rparr>)"
  by (simp add: try_body_def assms)

lemma os_unlink_present:
  assumes "fs w p = Some b"
  shows "os_unlink env p w =
           (case unlink_refused env (fs w) p of
              Some e \<Rightarrow> Inl e | None \<Rightarrow> Inr (w\<lparr>fs := (fs w)(p := None)\<rparr>))"
  by (simp add: os_unlink_def assms)

lemma try_body_unlink_raises:
  assumes "get_file_format (runtime env) (FormatToExtensions env) (name uf) = Some ff"
    and "NamedTemporaryFile env (fs w) (u ''.'' @ last (str_split 46 (name uf))) = Inr p"
    and "converter_convert env ((fs w)(p \<mapsto> getvalue uf)) p = Inr result"
    and "export result fmt = Inr content"
    and "unlink_refused env ((fs w)(p \<mapsto> getvalue uf)) p = Some e"
  shows "try_body env fmt uf t rs w =
           (Some e,
            rs @ [success_record (name uf) content fmt
                    (case pages result of Some n \<Rightarrow> int n | None \<Rightarrow> 1)
                    (now env (clock w) - t)],
            \<lparr>fs = (fs w)(p \<mapsto> getvalue uf), clock = Suc (clock w)\<rparr>)"
  by (simp add: try_body_def assms time_time_def os_unlink_def Let_def)

lemma try_body_success:
  assumes "get_file_format (runtime env) (FormatToExtensions env) (name uf) = Some ff"
    and "NamedTemporaryFile env (fs w) (u ''.'' @ last (str_split 46 (name uf))) = Inr p"
    and "converter_convert env ((fs w)(p \<mapsto> getvalue uf)) p = Inr result"
    and "export result fmt = Inr content"
    and "unlink_refused env ((fs w)(p \<mapsto> getvalue uf)) p = None"
  shows "try_body env fmt uf t rs w =
           (None,
            rs @ [success_record (name uf) content fmt
                    (case pages result of Some n \<Rightarrow> int n | None \<Rightarrow> 1)
                    (now env (clock w) - t)],
            \<lparr>fs = (fs w)(p := None), clock = Suc (clock w)\<rparr>)"
  by (simp add: try_body_def assms time_time_def os_unlink_def Let_def)



lemma convert_loop_gen:
  assumes step: "\<And>uf rs w. \<exists>new w'. loop_body env fmt uf (rs, w) = (rs @ new, w') \<and> Q uf new"
  shows "\<exists>rss w'. convert_loop env fmt files (rs, w) = (rs @ concat rss, w') \<and> list_all2 Q files rss"
proof (induction files arbitrary: rs w)
  case Nil
  show ?case by simp
next
  case (Cons uf files)
  from step obtain new w1 where 1: "loop_body env fmt uf (rs, w) = (rs @ new, w1)" and 2: "Q uf new"
    by blast
  from Cons.IH obtain rss w' where
    3: "convert_loop env fmt files (rs @ new, w1) = ((rs @ new) @ concat rss, w')"
    and 4: "list_all2 Q files rss"
    by blast
  have "convert_loop env fmt (uf # files) (rs, w) = (rs @ concat (new # rss), w')"
    by (simp add: 1 3)
  moreover have "list_all2 Q (uf # files) (new # rss)"
    by (simp add: 2 4)
  ultimately show ?case by blast
qed


lemma starts_with_append: "starts_with s (s @ b)"
  by (induction s) simp_all

lemma starts_with_iff: "starts_with p s \<longleftrightarrow> (\<exists>b. s = p @ b)"
proof (induction p s rule: starts_with.induct)
  case (3 p ps c cs)
  then show ?case by auto
qed simp_all

lemma contains_here: "starts_with sub s \<Longrightarrow> contains sub s"
  by (cases s) (simp_all, cases sub, simp_all)

lemma contains_later: "contains sub s \<Longrightarrow> contains sub (a @ s)"
  by (induction a) simp_all

lemma contains_middle: "contains s (a @ s @ b)"
  by (rule contains_later, rule contains_here, rule starts_with_append)

lemma contains_iff: "contains sub s \<longleftrightarrow> (\<exists>a b. s = a @ sub @ b)"
proof
  show "contains sub s \<Longrightarrow> \<exists>a b. s = a @ sub @ b"
  proof (induction s)
    case Nil
    then show ?case by simp
  next
    case (Cons c cs)
    from Cons.prems have "starts_with sub (c # cs) \<or> contains sub cs" by simp
    then show ?case
    proof
      assume "starts_with sub (c # cs)"
      then obtain b where "c # cs = sub @ b" unfolding starts_with_iff by blast
      then have "c # cs = [] @ sub @ b" by simp
      then show ?thesis by blast
    next
      assume "contains sub cs"
      with Cons.IH obtain a b where "cs = a @ sub @ b" by blast
      then have "c # cs = (c # a) @ sub @ b" by simp
      then show ?thesis by blast
    qed
  qed
next
  assume "\<exists>a b. s = a @ sub @ b"
  then show "contains sub s" by (auto simp: contains_middle)
qed


lemma error_message_enh_if:
  "error_message_enh e =
     (if contains (u ''No such file or directory'') (str_e e)
      then msg_access_prefix @ str_e e @ msg_access_hints else str_e e)"
  by (simp add: error_message_enh_def Let_def)

lemma try_body_enh_cases:
  assumes s: "\<And>c x t' n tp st'.
                conversion_results st' = conversion_results st @ [success_record_enh (name uf) c x t' n]
                \<Longrightarrow> success_count st' = success_count st + 1 \<Longrightarrow> P (None, tp, st')"
    and f: "\<And>e tp st'. conversion_results st' = conversion_results st
                \<Longrightarrow> success_count st' = success_count st \<Longrightarrow> P (Some e, tp, st')"
  shows "P (try_body_enh env fmt uf t st)"
proof (cases "NamedTemporaryFile env (fs (the_world st)) (suffix (name uf))")
  case (Inl e)
  then show ?thesis by (simp add: try_body_enh_def f)
next
  case (Inr p)
  note tmp = this
  show ?thesis
  proof (cases "converter_convert env ((fs (the_world st))(p \<mapsto> getvalue uf)) p")
    case (Inl e)
    with tmp show ?thesis by (simp add: try_body_enh_def os_path_exists_def Let_def f)
  next
    case (Inr result)
    note conv = this
    show ?thesis
    proof (cases "export_enh result fmt")
      case (Inl e)
      with tmp conv show ?thesis by (simp add: try_body_enh_def os_path_exists_def Let_def f)
    next
      case (Inr cx)
      obtain content extension where cx: "cx = (content, extension)" by (cases cx)
      with Inr tmp conv show ?thesis
        by (simp add: try_body_enh_def os_path_exists_def Let_def time_time_def s)
    qed
  qed
qed

lemma loop_body_enh_unfold:
  "loop_body_enh env fmt uf st =
     (case try_body_enh env fmt uf (now env (clock (the_world st)))
             (st\<lparr>the_world := (the_world st)\<lparr>clock := Suc (clock (the_world st))\<rparr>\<rparr>) of
        (None, tp, st1) \<Rightarrow> st1
      | (Some e, tp, st1) \<Rightarrow>
          st1\<lparr>conversion_results :=
                 conversion_results st1 @
                 [failure_record_enh (name uf) (error_message_enh e)
                    (now env (clock (the_world st1)) - now env (clock (the_world st)))
                    (case tp of None \<Rightarrow> msg_not_created
                     | Some p \<Rightarrow> if p = [] then msg_not_created else p)],
               the_world :=
                 cleanup env tp ((the_world st1)\<lparr>clock := Suc (clock (the_world st1))\<rparr>)\<rparr>)"
  by (simp add: loop_body_enh_def time_time_def Let_def split: prod.split option.split)

lemma loop_body_enh_raise:
  assumes "try_body_enh env fmt uf (now env (clock (the_world st)))
             (st\<lparr>the_world := (the_world st)\<lparr>clock := Suc (clock (the_world st))\<rparr>\<rparr>)
           = (Some e, tp, st1)"
  shows "loop_body_enh env fmt uf st =
          st1\<lparr>conversion_results :=
                 conversion_results st1 @
                 [failure_record_enh (name uf) (error_message_enh e)
                    (now env (clock (the_world st1)) - now env (clock (the_world st)))
                    (case tp of None \<Rightarrow> msg_not_created
                     | Some p \<Rightarrow> if p = [] then msg_not_created else p)],
               the_world :=
                 cleanup env tp ((the_world st1)\<lparr>clock := Suc (clock (the_world st1))\<rparr>)\<rparr>"
  by (simp add: loop_body_enh_unfold assms)

lemma loop_body_enh_return:
  assumes "try_body_enh env fmt uf (now env (clock (the_world st)))
             (st\<lparr>the_world := (the_world st)\<lparr>clock := Suc (clock (the_world st))\<rparr>\<rparr>)
           = (None, tp, st1)"
  shows "loop_body_enh env fmt uf st = st1"
  by (simp add: loop_body_enh_unfold assms)


lemma loop_body_enh_cases:
  assumes s: "\<And>c x t' n st'.
                conversion_results st' = conversion_results st @ [success_record_enh (name uf) c x t' n]
                \<Longrightarrow> success_count st' = success_count st + 1 \<Longrightarrow> P st'"
    and f: "\<And>e t' tp st'.
                conversion_results st' =
                  conversion_results st @ [failure_record_enh (name uf) (error_message_enh e) t' tp]
                \<Longrightarrow> success_count st' = success_count st \<Longrightarrow> P st'"
  shows "P (loop_body_enh env fmt uf st)"
  unfolding loop_body_enh_unfold
  by (rule try_body_enh_cases) (simp_all add: s f)

lemma try_body_enh_tmp_raises:
  assumes "NamedTemporaryFile env (fs (the_world st)) (suffix (name uf)) = Inl e"
  shows "try_body_enh env fmt uf t st = (Some e, None, st)"
  by (simp add: try_body_enh_def assms)

lemma try_body_enh_convert_raises:
  assumes "NamedTemporaryFile env (fs (the_world st)) (suffix (name uf)) = Inr p"
    and "converter_convert env ((fs (the_world st))(p \<mapsto> getvalue uf)) p = Inl e"
  shows "try_body_enh env fmt uf t st =
           (Some e, Some p, st\<lparr>the_world := (the_world st)\<lparr>fs := (fs (the_world st))(p \<mapsto> getvalue uf)\<rparr>\<rparr>)"
  by (simp add: try_body_enh_def assms os_path_exists_def Let_def)

lemma try_body_enh_export_raises:
  assumes "NamedTemporaryFile env (fs (the_world st)) (suffix (name uf)) = Inr p"
    and "converter_convert env ((fs (the_world st))(p \<mapsto> getvalue uf)) p = Inr result"
    and "export_enh result fmt = Inl e"
  shows "try_body_enh env fmt uf t st =
           (Some e, Some p, st\<lparr>the_world := (the_world st)\<lparr>fs := (fs (the_world st))(p \<mapsto> getvalue uf)\<rparr>\<rparr>)"
  by (simp add: try_body_enh_def assms os_path_exists_def Let_def)

lemma try_body_enh_success:
  assumes "NamedTemporaryFile env (fs (the_world st)) (suffix (name uf)) = Inr p"
    and "converter_convert env ((fs (the_world st))(p \<mapsto> getvalue uf)) p = Inr result"
    and "export_enh result fmt = Inr (content, extension)"
  shows "try_body_enh env fmt uf t st =
           (None, Some p,
            \<lparr>conversion_results =
               conversion_results st @
               [success_record_enh (name uf) content extension (now env (clock (the_world st)) - t)
                  (case pages result of Some n \<Rightarrow> PInt (int n) | None \<Rightarrow> PStr (u ''N/A''))],
             success_count = success_count st + 1,
             the_world =
               cleanup env (Some p)
                 ((the_world st)\<lparr>fs := (fs (the_world st))(p \<mapsto> getvalue uf),
                                 clock := Suc (clock (the_world st))\<rparr>)\<rparr>)"
  by (simp add: try_body_enh_def assms os_path_exists_def Let_def time_time_def)



lemma convert_loop_enh_gen:
  assumes step: "\<And>uf st. \<exists>r. conversion_results (loop_body_enh env fmt uf st)
                              = conversion_results st @ [r] \<and> Q uf r"
  shows "\<exists>new. conversion_results (convert_loop_enh env fmt files st) = conversion_results st @ new
               \<and> list_all2 Q files new"
proof (induction files arbitrary: st)
  case Nil
  show ?case by simp
next
  case (Cons uf files)
  from step obtain r where 1: "conversion_results (loop_body_enh env fmt uf st) = conversion_results st @ [r]"
    and 2: "Q uf r"
    by blast
  from Cons.IH obtain new where
    3: "conversion_results (convert_loop_enh env fmt files (loop_body_enh env fmt uf st))
          = conversion_results (loop_body_enh env fmt uf st) @ new"
    and 4: "list_all2 Q files new"
    by blast
  have "conversion_results (convert_loop_enh env fmt (uf # files) st) = conversion_results st @ (r # new)"
    by (simp add: 1 3)
  moreover have "list_all2 Q (uf # files) (r # new)"
    by (simp add: 2 4)
  ultimately show ?case by blast
qed


section \<open>The sample runs, evaluated\<close>

lemma example_pdf_format:
  "get_file_format (runtime example_env) (FormatToExtensions example_env) (name example_pdf) = Some 1"
  by (simp add: example_env_def example_pdf_def get_file_format_def ascii_python_def
      ascii_lower_chr_def u_def)

lemma example_docx_format:
  "get_file_format (runtime example_env) (FormatToExtensions example_env) (name example_docx) = Some 2"
  by (simp add: example_env_def example_docx_def get_file_format_def ascii_python_def
      ascii_lower_chr_def u_def)

lemma example_pdf_tmp:
  "NamedTemporaryFile example_env files (u ''.'' @ last (str_split 46 (name example_pdf)))
     = Inr (u ''/tmp/tmp0.pdf'')"
  by (simp add: example_env_def example_pdf_def u_def)

lemma example_docx_tmp:
  "NamedTemporaryFile example_env files (u ''.'' @ last (str_split 46 (name example_docx)))
     = Inr (u ''/tmp/tmp0.docx'')"
  by (simp add: example_env_def example_docx_def u_def)

lemma example_pdf_suffix: "suffix (name example_pdf) = u ''.pdf''"
  by (simp add: example_pdf_def suffix_def path_name_def path_parts_def rfind_def u_def)

lemma example_docx_suffix: "suffix (name example_docx) = u ''.docx''"
  by (simp add: example_docx_def suffix_def path_name_def path_parts_def rfind_def u_def)

lemma example_pdf_tmp_enh:
  "NamedTemporaryFile example_env files (suffix (name example_pdf)) = Inr (u ''/tmp/tmp0.pdf'')"
  by (simp add: example_pdf_suffix) (simp add: example_env_def u_def)

lemma example_docx_tmp_enh:
  "NamedTemporaryFile example_env files (suffix (name example_docx)) = Inr (u ''/tmp/tmp0.docx'')"
  by (simp add: example_docx_suffix) (simp add: example_env_def u_def)

lemma example_pdf_convert:
  "converter_convert example_env files (u ''/tmp/tmp0.pdf'') = Inl (Exn ''ConversionError'' (u ''boom''))"
  by (simp add: example_env_def)

lemma example_docx_convert:
  "converter_convert example_env files (u ''/tmp/tmp0.docx'') = Inr example_document"
  by (simp add: example_env_def u_def)

lemma example_export: "export example_document (u ''markdown'') = Inr (u ''# Title'')"
  by (simp add: export_def example_document_def)

lemma example_export_enh: "export_enh example_document (u ''Markdown'') = Inr (u ''# Title'', u ''md'')"
  by (simp add: export_enh_def example_document_def)

lemma example_unlink: "unlink_refused example_env files p = None"
  by (simp add: example_env_def)

lemma example_now: "now example_env k = real k"
  by (simp add: example_env_def)

lemma example_names: "name example_pdf = u ''a.pdf''" "name example_docx = u ''b.docx''"
  "getvalue example_pdf = u ''%PDF''" "getvalue example_docx = u ''PK''"
  by (simp_all add: example_pdf_def example_docx_def)

lemma boom_plain: "error_message_enh (Exn ''ConversionError'' (u ''boom'')) = u ''boom''"
  by (simp add: error_message_enh_def u_def)

lemma example_tmp_nonempty: "u ''/tmp/tmp0.pdf'' \<noteq> []" "u ''/tmp/tmp0.docx'' \<noteq> []"
  by (simp_all add: u_def)

lemma example_loop_body_pdf:
  "loop_body example_env fmt example_pdf (rs, w) =
     (rs @ [error_record (u ''a.pdf'') (u ''boom'') 1],
      w\<lparr>fs := (fs w)(u ''/tmp/tmp0.pdf'' \<mapsto> u ''%PDF''), clock := Suc (Suc (clock w))\<rparr>)"
proof -
  have "try_body example_env fmt example_pdf (now example_env (clock w)) rs (w\<lparr>clock := Suc (clock w)\<rparr>)
          = (Some (Exn ''ConversionError'' (u ''boom'')), rs,
             w\<lparr>clock := Suc (clock w)\<rparr>
              \<lparr>fs := (fs (w\<lparr>clock := Suc (clock w)\<rparr>))(u ''/tmp/tmp0.pdf'' \<mapsto> getvalue example_pdf)\<rparr>)"
    by (rule try_body_convert_raises[OF example_pdf_format example_pdf_tmp example_pdf_convert])
  from loop_body_raise[OF this] show ?thesis
    by (simp add: example_names example_now)
qed

lemma example_loop_body_docx:
  "loop_body example_env (u ''markdown'') example_docx (rs, w) =
     (rs @ [success_record (u ''b.docx'') (u ''# Title'') (u ''markdown'') 2 1],
      w\<lparr>fs := (fs w)(u ''/tmp/tmp0.docx'' := None), clock := Suc (Suc (clock w))\<rparr>)"
proof -
  have "try_body example_env (u ''markdown'') example_docx (now example_env (clock w)) rs
          (w\<lparr>clock := Suc (clock w)\<rparr>)
          = (None,
             rs @ [success_record (name example_docx) (u ''# Title'') (u ''markdown'')
                     (case pages example_document of Some n \<Rightarrow> int n | None \<Rightarrow> 1)
                     (now example_env (clock (w\<lparr>clock := Suc (clock w)\<rparr>))
                        - now example_env (clock w))],
             \<lparr>fs = (fs (w\<lparr>clock := Suc (clock w)\<rparr>))(u ''/tmp/tmp0.docx'' := None),
              clock = Suc (clock (w\<lparr>clock := Suc (clock w)\<rparr>))\<rparr>)"
    by (rule try_body_success[OF example_docx_format example_docx_tmp example_docx_convert
          example_export example_unlink])
  from loop_body_return[OF this] show ?thesis
    by (simp add: example_names example_now example_document_def)
qed

lemma example_loop_body_enh_pdf:
  "loop_body_enh example_env fmt example_pdf st =
     st\<lparr>conversion_results :=
          conversion_results st @ [failure_record_enh (u ''a.pdf'') (u ''boom'') 1 (u ''/tmp/tmp0.pdf'')],
        the_world :=
          (the_world st)\<lparr>fs := (fs (the_world st))(u ''/tmp/tmp0.pdf'' := None),
                         clock := Suc (Suc (clock (the_world st)))\<rparr>\<rparr>"
proof -
  let ?st = "st\<lparr>the_world := (the_world st)\<lparr>clock := Suc (clock (the_world st))\<rparr>\<rparr>"
  have "try_body_enh example_env fmt example_pdf (now example_env (clock (the_world st))) ?st
          = (Some (Exn ''ConversionError'' (u ''boom'')), Some (u ''/tmp/tmp0.pdf''),
             ?st\<lparr>the_world :=
                   (the_world ?st)\<lparr>fs := (fs (the_world ?st))(u ''/tmp/tmp0.pdf'' \<mapsto> getvalue example_pdf)\<rparr>\<rparr>)"
    by (rule try_body_enh_convert_raises[OF example_pdf_tmp_enh example_pdf_convert])
  from loop_body_enh_raise[OF this] show ?thesis
    by (simp add: example_names example_now boom_plain cleanup_def os_path_exists_def
        os_unlink_def example_unlink example_tmp_nonempty)
qed

lemma example_loop_body_enh_docx:
  "loop_body_enh example_env (u ''Markdown'') example_docx st =
     \<lparr>conversion_results =
        conversion_results st @ [success_record_enh (u ''b.docx'') (u ''# Title'') (u ''md'') 1 (PInt 2)],
      success_count = success_count st + 1,
      the_world =
        (the_world st)\<lparr>fs := (fs (the_world st))(u ''/tmp/tmp0.docx'' := None),
                       clock := Suc (Suc (clock (the_world st)))\<rparr>\<rparr>"
proof -
  let ?st = "st\<lparr>the_world := (the_world st)\<lparr>clock := Suc (clock (the_world st))\<rparr>\<rparr>"
  note t = try_body_enh_success[OF example_docx_tmp_enh example_docx_convert example_export_enh,
      where st = ?st and t = "now example_env (clock (the_world st))"]
  from loop_body_enh_return[OF t] show ?thesis
    by (simp add: example_names example_now example_document_def
        cleanup_def os_path_exists_def os_unlink_def example_unlink example_tmp_nonempty)
qed


section \<open>Claims about the conversion loops\<close>

lemma unsupported_record_fields:
  "unsupported_record f ''filename'' = Some (PStr f)"
  "unsupported_record f ''status'' = Some (PStr (u ''error''))"
  "unsupported_record f ''message'' = Some (PStr msg_unsupported)"
  "unsupported_record f ''content'' = None"
  by (simp_all add: unsupported_record_def)

lemma error_record_fields:
  "error_record f m t ''filename'' = Some (PStr f)"
  "error_record f m t ''status'' = Some (PStr (u ''error''))"
  "error_record f m t ''message'' = Some (PStr m)"
  "error_record f m t ''content'' = None"
  by (simp_all add: error_record_def)

lemma success_record_fields:
  "success_record f c x n t ''filename'' = Some (PStr f)"
  "success_record f c x n t ''status'' = Some (PStr (u ''success''))"
  "success_record f c x n t ''content'' = Some (PStr c)"
  "success_record f c x n t ''format'' = Some (PStr x)"
  "success_record f c x n t ''message'' = None"
  by (simp_all add: success_record_def)

lemma success_record_enh_fields:
  "success_record_enh f c x t n ''filename'' = Some (PStr f)"
  "success_record_enh f c x t n ''success'' = Some (PBool True)"
  "success_record_enh f c x t n ''content'' = Some (PStr c)"
  "success_record_enh f c x t n ''extension'' = Some (PStr x)"
  "success_record_enh f c x t n ''error'' = None"
  by (simp_all add: success_record_enh_def)

lemma failure_record_enh_fields:
  "failure_record_enh f m t q ''filename'' = Some (PStr f)"
  "failure_record_enh f m t q ''success'' = Some (PBool False)"
  "failure_record_enh f m t q ''error'' = Some (PStr m)"
  "failure_record_enh f m t q ''content'' = None"
  by (simp_all add: failure_record_enh_def)

lemma status_distinct: "u ''success'' \<noteq> u ''error''"
  by (simp add: u_def)



lemma boom_not_missing: "\<not> contains (u ''No such file or directory'') (u ''boom'')"
  by (simp add: u_def)



lemma list_all2_concat_ball:
  "list_all2 (\<lambda>x ys. \<forall>y \<in> set ys. P y) xs yss \<Longrightarrow> \<forall>y \<in> set (concat yss). P y"
  by (induction rule: list_all2_induct) auto

lemma list_all2_ball: "list_all2 (\<lambda>x y. P y) xs ys \<Longrightarrow> \<forall>y \<in> set ys. P y"
  by (induction rule: list_all2_induct) auto

lemma example_convert_loop:
  "convert_loop example_env (u ''markdown'') [example_pdf, example_docx] (rs, w) =
     (rs @ [error_record (u ''a.pdf'') (u ''boom'') 1,
            success_record (u ''b.docx'') (u ''# Title'') (u ''markdown'') 2 1],
      w\<lparr>fs := (fs w)(u ''/tmp/tmp0.pdf'' \<mapsto> u ''%PDF'', u ''/tmp/tmp0.docx'' := None),
        clock := Suc (Suc (Suc (Suc (clock w))))\<rparr>)"
  by (simp add: example_loop_body_pdf example_loop_body_docx)

lemma example_convert_loop_enh:
  "conversion_results (convert_loop_enh example_env (u ''Markdown'') [example_pdf, example_docx] st) =
     conversion_results st @
     [failure_record_enh (u ''a.pdf'') (u ''boom'') 1 (u ''/tmp/tmp0.pdf''),
      success_record_enh (u ''b.docx'') (u ''# Title'') (u ''md'') 1 (PInt 2)]"
  by (simp add: example_loop_body_enh_pdf example_loop_body_enh_docx)

lemma loop_body_success:
  assumes f: "get_file_format (runtime env) (FormatToExtensions env) (name uf) = Some ff"
    and t: "NamedTemporaryFile env (fs w) (u ''.'' @ last (str_split 46 (name uf))) = Inr p"
    and c: "converter_convert env ((fs w)(p \<mapsto> getvalue uf)) p = Inr doc"
    and x: "export doc fmt = Inr content"
  shows "\<exists>more w'. loop_body env fmt uf (rs, w) =
           (rs @ success_record (name uf) content fmt
                   (case pages doc of Some n \<Rightarrow> int n | None \<Rightarrow> 1)
                   (now env (Suc (clock w)) - now env (clock w)) # more, w')
         \<and> (more = [] \<or> (\<exists>e t'. more = [error_record (name uf) (str_e e) t']))"
proof -
  let ?w = "w\<lparr>clock := Suc (clock w)\<rparr>"
  have t': "NamedTemporaryFile env (fs ?w) (u ''.'' @ last (str_split 46 (name uf))) = Inr p"
    using t by simp
  have c': "converter_convert env ((fs ?w)(p \<mapsto> getvalue uf)) p = Inr doc"
    using c by simp
  show ?thesis
  proof (cases "unlink_refused env ((fs ?w)(p \<mapsto> getvalue uf)) p")
    case None
    note r = try_body_success[OF f t' c' x None, where t = "now env (clock w)" and rs = rs]
    from loop_body_return[OF r] show ?thesis by simp
  next
    case (Some e)
    note r = try_body_unlink_raises[OF f t' c' x Some, where t = "now env (clock w)" and rs = rs]
    from loop_body_raise[OF r] show ?thesis by auto
  qed
qed

lemma loop_body_enh_success:
  assumes t: "NamedTemporaryFile env (fs (the_world s)) (suffix (name uf)) = Inr p"
    and c: "converter_convert env ((fs (the_world s))(p \<mapsto> getvalue uf)) p = Inr doc"
    and x: "export_enh doc fmt = Inr (content, ext)"
  shows "conversion_results (loop_body_enh env fmt uf s) =
           conversion_results s @
           [success_record_enh (name uf) content ext
              (now env (Suc (clock (the_world s))) - now env (clock (the_world s)))
              (case pages doc of Some n \<Rightarrow> PInt (int n) | None \<Rightarrow> PStr (u ''N/A''))]
         \<and> success_count (loop_body_enh env fmt uf s) = success_count s + 1"
proof -
  let ?s = "s\<lparr>the_world := (the_world s)\<lparr>clock := Suc (clock (the_world s))\<rparr>\<rparr>"
  have t': "NamedTemporaryFile env (fs (the_world ?s)) (suffix (name uf)) = Inr p"
    using t by simp
  have c': "converter_convert env ((fs (the_world ?s))(p \<mapsto> getvalue uf)) p = Inr doc"
    using c by simp
  note r = try_body_enh_success[OF t' c' x, where t = "now env (clock (the_world s))"]
  from loop_body_enh_return[OF r] show ?thesis by simp
qed

text \<open>
  C3. Every record the loop appends is either marked success, with a content field and no
  message field, or marked failure, with a message field and no content field; the two
  marks differ. In the base variant the mark is the \<open>status\<close> field (\<open>success\<close> or
  \<open>error\<close>) and the message is the \<open>message\<close> field; in the enhanced variant the mark is
  the \<open>success\<close> field (\<open>True\<close> or \<open>False\<close>) and the message is the \<open>error\<close> field. It
  holds for the records appended to any list, so for all records of a run, which starts
  from the empty list. When every call of a turn returns, the record of the turn is a
  success record whose content is what the export returned (in the base variant a failure
  record follows it when the unlink after it raises).
\<close>

theorem every_record_is_success_or_failure:
  "(\<exists>rss w'. convert_loop env fmt files (rs, w) = (rs @ concat rss, w')
       \<and> list_all2 (\<lambda>file new. \<forall>r \<in> set new.
            (r ''status'' = Some (PStr (u ''success'')) \<and> (\<exists>c. r ''content'' = Some (PStr c))
               \<and> r ''message'' = None)
            \<or> (r ''status'' = Some (PStr (u ''error'')) \<and> (\<exists>m. r ''message'' = Some (PStr m))
               \<and> r ''content'' = None)) files rss)
   \<and> (\<forall>r \<in> set (fst (convert_loop env fmt files ([], w))).
         (r ''status'' = Some (PStr (u ''success'')) \<and> (\<exists>c. r ''content'' = Some (PStr c))
            \<and> r ''message'' = None)
         \<or> (r ''status'' = Some (PStr (u ''error'')) \<and> (\<exists>m. r ''message'' = Some (PStr m))
            \<and> r ''content'' = None))
   \<and> u ''success'' \<noteq> u ''error''
   \<and> (get_file_format (runtime env) (FormatToExtensions env) (name uf) = Some ff
        \<and> NamedTemporaryFile env (fs w) (u ''.'' @ last (str_split 46 (name uf))) = Inr p
        \<and> converter_convert env ((fs w)(p \<mapsto> getvalue uf)) p = Inr doc
        \<and> export doc fmt = Inr content \<longrightarrow>
        (\<exists>more w'. loop_body env fmt uf (rs, w) =
           (rs @ success_record (name uf) content fmt
                   (case pages doc of Some n \<Rightarrow> int n | None \<Rightarrow> 1)
                   (now env (Suc (clock w)) - now env (clock w)) # more, w')
         \<and> (more = [] \<or> (\<exists>e t'. more = [error_record (name uf) (str_e e) t']))))
   \<and> success_record f c x n t ''status'' = Some (PStr (u ''success''))
   \<and> success_record f c x n t ''content'' = Some (PStr c)
   \<and> success_record f c x n t ''message'' = None
   \<and> error_record f m t ''status'' = Some (PStr (u ''error''))
   \<and> error_record f m t ''message'' = Some (PStr m)
   \<and> error_record f m t ''content'' = None
   \<and> unsupported_record f ''status'' = Some (PStr (u ''error''))
   \<and> unsupported_record f ''message'' = Some (PStr msg_unsupported)
   \<and> unsupported_record f ''content'' = None
   \<and> (\<exists>new. conversion_results (convert_loop_enh env fmt files s) = conversion_results s @ new
         \<and> list_all2 (\<lambda>file r.
              (r ''success'' = Some (PBool True) \<and> (\<exists>c. r ''content'' = Some (PStr c))
                 \<and> r ''error'' = None)
              \<or> (r ''success'' = Some (PBool False) \<and> (\<exists>m. r ''error'' = Some (PStr m))
                 \<and> r ''content'' = None)) files new)
   \<and> (\<forall>r \<in> set (conversion_results (convert_loop_enh env fmt files
                      \<lparr>conversion_results = [], success_count = 0, the_world = w\<rparr>)).
         (r ''success'' = Some (PBool True) \<and> (\<exists>c. r ''content'' = Some (PStr c))
            \<and> r ''error'' = None)
         \<or> (r ''success'' = Some (PBool False) \<and> (\<exists>m. r ''error'' = Some (PStr m))
            \<and> r ''content'' = None))
   \<and> (NamedTemporaryFile env (fs (the_world s)) (suffix (name uf)) = Inr p
        \<and> converter_convert env ((fs (the_world s))(p \<mapsto> getvalue uf)) p = Inr doc
        \<and> export_enh doc fmt = Inr (content, ext) \<longrightarrow>
        conversion_results (loop_body_enh env fmt uf s) =
           conversion_results s @
           [success_record_enh (name uf) content ext
              (now env (Suc (clock (the_world s))) - now env (clock (the_world s)))
              (case pages doc of Some n \<Rightarrow> PInt (int n) | None \<Rightarrow> PStr (u ''N/A''))])
   \<and> success_record_enh f c x t v ''success'' = Some (PBool True)
   \<and> success_record_enh f c x t v ''content'' = Some (PStr c)
   \<and> success_record_enh f c x t v ''error'' = None
   \<and> failure_record_enh f m t q ''success'' = Some (PBool False)
   \<and> failure_record_enh f m t q ''error'' = Some (PStr m)
   \<and> failure_record_enh f m t q ''content'' = None"
proof -
  let ?S = "\<lambda>r::pydict.
            (r ''status'' = Some (PStr (u ''success'')) \<and> (\<exists>c. r ''content'' = Some (PStr c))
               \<and> r ''message'' = None)
            \<or> (r ''status'' = Some (PStr (u ''error'')) \<and> (\<exists>m. r ''message'' = Some (PStr m))
               \<and> r ''content'' = None)"
  let ?E = "\<lambda>r::pydict.
              (r ''success'' = Some (PBool True) \<and> (\<exists>c. r ''content'' = Some (PStr c))
                 \<and> r ''error'' = None)
              \<or> (r ''success'' = Some (PBool False) \<and> (\<exists>m. r ''error'' = Some (PStr m))
                 \<and> r ''content'' = None)"
  have step: "\<exists>new w'. loop_body env fmt uf (rs, w) = (rs @ new, w') \<and> (\<forall>r \<in> set new. ?S r)"
    for uf rs w
    by (rule loop_body_cases[where P = "\<lambda>x. \<exists>new w'. x = (rs @ new, w') \<and> (\<forall>r \<in> set new. ?S r)"])
      (simp_all add: unsupported_record_fields error_record_fields success_record_fields)
  have gen: "\<exists>rss w'. convert_loop env fmt files (rs, w) = (rs @ concat rss, w')
       \<and> list_all2 (\<lambda>file new. \<forall>r \<in> set new. ?S r) files rss" for rs w
    by (rule convert_loop_gen[where Q = "\<lambda>file new. \<forall>r \<in> set new. ?S r"]) (rule step)
  have c1: "\<exists>rss w'. convert_loop env fmt files (rs, w) = (rs @ concat rss, w')
       \<and> list_all2 (\<lambda>file new. \<forall>r \<in> set new. ?S r) files rss"
    by (rule gen)
  have c2: "\<forall>r \<in> set (fst (convert_loop env fmt files ([], w))). ?S r"
  proof -
    from gen[of "[]" w] obtain rss w' where
      1: "convert_loop env fmt files ([], w) = ([] @ concat rss, w')"
      and 2: "list_all2 (\<lambda>file new. \<forall>r \<in> set new. ?S r) files rss"
      by (elim exE conjE)
    from list_all2_concat_ball[OF 2] have "\<forall>r \<in> set (concat rss). ?S r" .
    then show ?thesis by (simp only: 1 fst_conv append_Nil)
  qed
  have c3: "u ''success'' \<noteq> u ''error''" by (rule status_distinct)
  have c4: "get_file_format (runtime env) (FormatToExtensions env) (name uf) = Some ff
        \<and> NamedTemporaryFile env (fs w) (u ''.'' @ last (str_split 46 (name uf))) = Inr p
        \<and> converter_convert env ((fs w)(p \<mapsto> getvalue uf)) p = Inr doc
        \<and> export doc fmt = Inr content \<longrightarrow>
        (\<exists>more w'. loop_body env fmt uf (rs, w) =
           (rs @ success_record (name uf) content fmt
                   (case pages doc of Some n \<Rightarrow> int n | None \<Rightarrow> 1)
                   (now env (Suc (clock w)) - now env (clock w)) # more, w')
         \<and> (more = [] \<or> (\<exists>e t'. more = [error_record (name uf) (str_e e) t'])))"
  proof
    assume h: "get_file_format (runtime env) (FormatToExtensions env) (name uf) = Some ff
        \<and> NamedTemporaryFile env (fs w) (u ''.'' @ last (str_split 46 (name uf))) = Inr p
        \<and> converter_convert env ((fs w)(p \<mapsto> getvalue uf)) p = Inr doc
        \<and> export doc fmt = Inr content"
    show "\<exists>more w'. loop_body env fmt uf (rs, w) =
           (rs @ success_record (name uf) content fmt
                   (case pages doc of Some n \<Rightarrow> int n | None \<Rightarrow> 1)
                   (now env (Suc (clock w)) - now env (clock w)) # more, w')
         \<and> (more = [] \<or> (\<exists>e t'. more = [error_record (name uf) (str_e e) t']))"
      by (rule loop_body_success[OF h[THEN conjunct1] h[THEN conjunct2, THEN conjunct1]
            h[THEN conjunct2, THEN conjunct2, THEN conjunct1]
            h[THEN conjunct2, THEN conjunct2, THEN conjunct2]])
  qed
  have stepE: "\<exists>r. conversion_results (loop_body_enh env fmt uf st) = conversion_results st @ [r] \<and> ?E r"
    for uf st
    by (rule loop_body_enh_cases[where P = "\<lambda>x. \<exists>r. conversion_results x = conversion_results st @ [r] \<and> ?E r"])
      (simp_all add: success_record_enh_fields failure_record_enh_fields)
  have genE: "\<exists>new. conversion_results (convert_loop_enh env fmt files s) = conversion_results s @ new
         \<and> list_all2 (\<lambda>file r. ?E r) files new" for s
    by (rule convert_loop_enh_gen[where Q = "\<lambda>file r. ?E r"]) (rule stepE)
  have e1: "\<exists>new. conversion_results (convert_loop_enh env fmt files s) = conversion_results s @ new
         \<and> list_all2 (\<lambda>file r. ?E r) files new"
    by (rule genE)
  have e2: "\<forall>r \<in> set (conversion_results (convert_loop_enh env fmt files
                      \<lparr>conversion_results = [], success_count = 0, the_world = w\<rparr>)). ?E r"
  proof -
    let ?s = "\<lparr>conversion_results = [], success_count = 0, the_world = w\<rparr>"
    from genE[of ?s] obtain new where
      1: "conversion_results (convert_loop_enh env fmt files ?s) = conversion_results ?s @ new"
      and 2: "list_all2 (\<lambda>file r. ?E r) files new"
      by (elim exE conjE)
    have 3: "conversion_results (convert_loop_enh env fmt files ?s) = new"
      using 1 by simp
    from list_all2_ball[OF 2] have "\<forall>r \<in> set new. ?E r" .
    then show ?thesis by (simp only: 3)
  qed
  have e3: "NamedTemporaryFile env (fs (the_world s)) (suffix (name uf)) = Inr p
        \<and> converter_convert env ((fs (the_world s))(p \<mapsto> getvalue uf)) p = Inr doc
        \<and> export_enh doc fmt = Inr (content, ext) \<longrightarrow>
        conversion_results (loop_body_enh env fmt uf s) =
           conversion_results s @
           [success_record_enh (name uf) content ext
              (now env (Suc (clock (the_world s))) - now env (clock (the_world s)))
              (case pages doc of Some n \<Rightarrow> PInt (int n) | None \<Rightarrow> PStr (u ''N/A''))]"
  proof
    assume h: "NamedTemporaryFile env (fs (the_world s)) (suffix (name uf)) = Inr p
        \<and> converter_convert env ((fs (the_world s))(p \<mapsto> getvalue uf)) p = Inr doc
        \<and> export_enh doc fmt = Inr (content, ext)"
    show "conversion_results (loop_body_enh env fmt uf s) =
           conversion_results s @
           [success_record_enh (name uf) content ext
              (now env (Suc (clock (the_world s))) - now env (clock (the_world s)))
              (case pages doc of Some n \<Rightarrow> PInt (int n) | None \<Rightarrow> PStr (u ''N/A''))]"
      by (rule conjunct1[OF loop_body_enh_success[OF h[THEN conjunct1]
              h[THEN conjunct2, THEN conjunct1] h[THEN conjunct2, THEN conjunct2]]])
  qed
  show ?thesis
    by (intro conjI, rule c1, rule c2, rule c3, rule c4,
        rule success_record_fields, rule success_record_fields, rule success_record_fields,
        rule error_record_fields, rule error_record_fields, rule error_record_fields,
        rule unsupported_record_fields, rule unsupported_record_fields, rule unsupported_record_fields,
        rule e1, rule e2, rule e3,
        rule success_record_enh_fields, rule success_record_enh_fields, rule success_record_enh_fields,
        rule failure_record_enh_fields, rule failure_record_enh_fields, rule failure_record_enh_fields)
qed


theorem every_record_is_success_or_failure_witness:
  "map (\<lambda>r. (r ''status'', r ''content'', r ''message''))
       (fst (convert_loop example_env (u ''markdown'') [example_pdf, example_docx] ([], example_world)))
     = [(Some (PStr (u ''error'')), None, Some (PStr (u ''boom''))),
        (Some (PStr (u ''success'')), Some (PStr (u ''# Title'')), None)]
   \<and> (\<exists>rss. fst (convert_loop example_env (u ''markdown'') [example_pdf, example_docx] ([], example_world))
              = concat rss \<and> length rss = 2)
   \<and> fst (loop_body example_env (u ''markdown'') example_docx ([], example_world))
     = [success_record (u ''b.docx'') (u ''# Title'') (u ''markdown'') 2 1]
   \<and> success_record (u ''b.docx'') (u ''# Title'') (u ''markdown'') 2 1 ''content''
     = Some (PStr (u ''# Title''))
   \<and> map (\<lambda>r. (r ''success'', r ''content'', r ''error''))
       (conversion_results (convert_loop_enh example_env (u ''Markdown'') [example_pdf, example_docx]
          \<lparr>conversion_results = [], success_count = 0, the_world = example_world\<rparr>))
     = [(Some (PBool False), None, Some (PStr (u ''boom''))),
        (Some (PBool True), Some (PStr (u ''# Title'')), None)]
   \<and> conversion_results (loop_body_enh example_env (u ''Markdown'') example_docx example_state)
     = [success_record_enh (u ''b.docx'') (u ''# Title'') (u ''md'') 1 (PInt 2)]
   \<and> failure_record_enh (u ''a.pdf'') (u ''boom'') 1 (u ''/tmp/tmp0.pdf'') ''content'' = None"
proof -
  let ?p = "u ''/tmp/tmp0.docx''"
  note A = every_record_is_success_or_failure[where env = example_env and fmt = "u ''markdown''"
      and files = "[example_pdf, example_docx]" and rs = "[]" and w = example_world
      and uf = example_docx and ff = 2 and p = ?p and doc = example_document
      and content = "u ''# Title''" and f = "u ''b.docx''" and c = "u ''# Title''"
      and x = "u ''markdown''" and n = 2 and t = 1]
  note B = every_record_is_success_or_failure[where env = example_env and fmt = "u ''Markdown''"
      and files = "[example_pdf, example_docx]" and w = example_world and s = example_state
      and uf = example_docx and p = ?p and doc = example_document
      and content = "u ''# Title''" and ext = "u ''md''" and f = "u ''a.pdf''" and m = "u ''boom''"
      and t = 1 and q = "u ''/tmp/tmp0.pdf''"]
  have w1: "map (\<lambda>r. (r ''status'', r ''content'', r ''message''))
       (fst (convert_loop example_env (u ''markdown'') [example_pdf, example_docx] ([], example_world)))
     = [(Some (PStr (u ''error'')), None, Some (PStr (u ''boom''))),
        (Some (PStr (u ''success'')), Some (PStr (u ''# Title'')), None)]"
    using A[THEN conjunct2, THEN conjunct1]
    by (simp add: example_loop_body_pdf example_loop_body_docx error_record_fields success_record_fields)
  from A[THEN conjunct1]
  obtain rss w' where r1: "convert_loop example_env (u ''markdown'') [example_pdf, example_docx] ([], example_world)
                   = ([] @ concat rss, w')"
    and r2: "list_all2 (\<lambda>file new. \<forall>r \<in> set new.
            (r ''status'' = Some (PStr (u ''success'')) \<and> (\<exists>c. r ''content'' = Some (PStr c))
               \<and> r ''message'' = None)
            \<or> (r ''status'' = Some (PStr (u ''error'')) \<and> (\<exists>m. r ''message'' = Some (PStr m))
               \<and> r ''content'' = None)) [example_pdf, example_docx] rss"
    by (elim exE conjE)
  from list_all2_lengthD[OF r2] have "length rss = 2" by simp
  with r1 have w2: "\<exists>rss. fst (convert_loop example_env (u ''markdown'') [example_pdf, example_docx] ([], example_world))
              = concat rss \<and> length rss = 2"
    by auto
  have h4: "get_file_format (runtime example_env) (FormatToExtensions example_env) (name example_docx) = Some 2
        \<and> NamedTemporaryFile example_env (fs example_world) (u ''.'' @ last (str_split 46 (name example_docx))) = Inr ?p
        \<and> converter_convert example_env ((fs example_world)(?p \<mapsto> getvalue example_docx)) ?p = Inr example_document
        \<and> export example_document (u ''markdown'') = Inr (u ''# Title'')"
    by (intro conjI, rule example_docx_format, rule example_docx_tmp, rule example_docx_convert,
        rule example_export)
  have w3: "fst (loop_body example_env (u ''markdown'') example_docx ([], example_world))
     = [success_record (u ''b.docx'') (u ''# Title'') (u ''markdown'') 2 1]"
    using mp[OF A[THEN conjunct2, THEN conjunct2, THEN conjunct2, THEN conjunct1] h4]
    by (simp add: example_loop_body_docx)
  have w4: "success_record (u ''b.docx'') (u ''# Title'') (u ''markdown'') 2 1 ''content''
     = Some (PStr (u ''# Title''))"
    by (rule A[THEN conjunct2, THEN conjunct2, THEN conjunct2, THEN conjunct2, THEN conjunct2,
          THEN conjunct1])
  note B14 = B[THEN conjunct2, THEN conjunct2, THEN conjunct2, THEN conjunct2, THEN conjunct2,
      THEN conjunct2, THEN conjunct2, THEN conjunct2, THEN conjunct2, THEN conjunct2,
      THEN conjunct2, THEN conjunct2, THEN conjunct2, THEN conjunct2]
  have w5: "map (\<lambda>r. (r ''success'', r ''content'', r ''error''))
       (conversion_results (convert_loop_enh example_env (u ''Markdown'') [example_pdf, example_docx]
          \<lparr>conversion_results = [], success_count = 0, the_world = example_world\<rparr>))
     = [(Some (PBool False), None, Some (PStr (u ''boom''))),
        (Some (PBool True), Some (PStr (u ''# Title'')), None)]"
    using B14[THEN conjunct1]
    by (simp add: example_loop_body_enh_pdf example_loop_body_enh_docx failure_record_enh_fields success_record_enh_fields)
  have h16: "NamedTemporaryFile example_env (fs (the_world example_state)) (suffix (name example_docx)) = Inr ?p
        \<and> converter_convert example_env ((fs (the_world example_state))(?p \<mapsto> getvalue example_docx)) ?p
            = Inr example_document
        \<and> export_enh example_document (u ''Markdown'') = Inr (u ''# Title'', u ''md'')"
    by (intro conjI, rule example_docx_tmp_enh, rule example_docx_convert, rule example_export_enh)
  have w6: "conversion_results (loop_body_enh example_env (u ''Markdown'') example_docx example_state)
     = [success_record_enh (u ''b.docx'') (u ''# Title'') (u ''md'') 1 (PInt 2)]"
    using mp[OF B14[THEN conjunct2, THEN conjunct1] h16]
    by (simp add: example_names example_now example_state_def example_world_def example_document_def)
  have w7: "failure_record_enh (u ''a.pdf'') (u ''boom'') 1 (u ''/tmp/tmp0.pdf'') ''content'' = None"
    by (rule B14[THEN conjunct2, THEN conjunct2, THEN conjunct2, THEN conjunct2, THEN conjunct2,
          THEN conjunct2, THEN conjunct2])
  show ?thesis
    by (intro conjI, rule w1, rule w2, rule w3, rule w4, rule w5, rule w6, rule w7)
qed


lemma loop_body_raise_message:
  assumes "try_body env fmt uf (now env (clock w)) rs (w\<lparr>clock := Suc (clock w)\<rparr>) = (Some e, rs1, w1)"
  shows "last (fst (loop_body env fmt uf (rs, w))) ''message'' = Some (PStr (str_e e))"
  by (simp add: loop_body_raise[OF assms] error_record_fields)

lemma loop_body_enh_raise_error:
  assumes "try_body_enh env fmt uf (now env (clock (the_world s)))
             (s\<lparr>the_world := (the_world s)\<lparr>clock := Suc (clock (the_world s))\<rparr>\<rparr>) = (Some e, tp, s1)"
  shows "last (conversion_results (loop_body_enh env fmt uf s)) ''error'' =
           Some (PStr (if contains (u ''No such file or directory'') (str_e e)
                       then msg_access_prefix @ str_e e @ msg_access_hints else str_e e))"
  by (simp add: loop_body_enh_raise[OF assms] failure_record_enh_fields error_message_enh_if)

lemma wrapped_differs: "msg_access_prefix @ m @ msg_access_hints \<noteq> m"
proof
  assume "msg_access_prefix @ m @ msg_access_hints = m"
  then have "length (msg_access_prefix @ m @ msg_access_hints) = length m" by simp
  then show False by (simp add: msg_access_prefix_def)
qed

lemma missing_file_tmp_enh:
  "NamedTemporaryFile missing_file_env files (suffix (name example_pdf)) = Inr (u ''/tmp/tmp0.pdf'')"
  using example_pdf_tmp_enh[of files] by (simp add: missing_file_env_def)

lemma missing_file_tmp:
  "NamedTemporaryFile missing_file_env files (u ''.'' @ last (str_split 46 (name example_pdf)))
     = Inr (u ''/tmp/tmp0.pdf'')"
  using example_pdf_tmp[of files] by (simp add: missing_file_env_def)

lemma missing_file_format:
  "get_file_format (runtime missing_file_env) (FormatToExtensions missing_file_env) (name example_pdf)
     = Some 1"
  using example_pdf_format by (simp add: missing_file_env_def)

lemma missing_file_convert: "converter_convert missing_file_env files p = Inl missing_file_exn"
  by (simp add: missing_file_env_def)

lemma missing_file_contains: "contains (u ''No such file or directory'') (str_e missing_file_exn)"
proof -
  have "str_e missing_file_exn =
          u ''[Errno 2] '' @ u ''No such file or directory'' @ (u '': '' @ [39] @ u ''in.pdf'' @ [39])"
    by (simp add: missing_file_exn_def u_def)
  then show ?thesis by (simp only: contains_middle)
qed

text \<open>
  C8 (as amended). An exception caught in a turn of the loop is always turned into text by
  \<open>str(e)\<close>, wherever it was raised: when the temporary file cannot be created, in the
  converter, in the export, and in the base variant in the unlink after the success
  record. The base variant stores that text unchanged as the message, whatever the
  exception. The enhanced variant stores it unchanged only when it does not hold
  \<open>No such file or directory\<close>; when it does, the stored error is another text: a prefix,
  then \<open>str(e)\<close>, then a list of hints. A file of unsupported format raises nothing in
  the base variant and gets a fixed message.
\<close>

theorem exceptions_are_stringified:
  "(try_body env fmt uf (now env (clock w)) rs (w\<lparr>clock := Suc (clock w)\<rparr>) = (Some e, rs1, w1) \<longrightarrow>
      last (fst (loop_body env fmt uf (rs, w))) ''message'' = Some (PStr (str_e e)))
   \<and> (get_file_format (runtime env) (FormatToExtensions env) (name uf) = Some ff
        \<and> NamedTemporaryFile env (fs w) (u ''.'' @ last (str_split 46 (name uf))) = Inl e \<longrightarrow>
        last (fst (loop_body env fmt uf (rs, w))) ''message'' = Some (PStr (str_e e)))
   \<and> (get_file_format (runtime env) (FormatToExtensions env) (name uf) = Some ff
        \<and> NamedTemporaryFile env (fs w) (u ''.'' @ last (str_split 46 (name uf))) = Inr p
        \<and> converter_convert env ((fs w)(p \<mapsto> getvalue uf)) p = Inl e \<longrightarrow>
        last (fst (loop_body env fmt uf (rs, w))) ''message'' = Some (PStr (str_e e)))
   \<and> (get_file_format (runtime env) (FormatToExtensions env) (name uf) = Some ff
        \<and> NamedTemporaryFile env (fs w) (u ''.'' @ last (str_split 46 (name uf))) = Inr p
        \<and> converter_convert env ((fs w)(p \<mapsto> getvalue uf)) p = Inr doc
        \<and> export doc fmt = Inl e \<longrightarrow>
        last (fst (loop_body env fmt uf (rs, w))) ''message'' = Some (PStr (str_e e)))
   \<and> (get_file_format (runtime env) (FormatToExtensions env) (name uf) = Some ff
        \<and> NamedTemporaryFile env (fs w) (u ''.'' @ last (str_split 46 (name uf))) = Inr p
        \<and> converter_convert env ((fs w)(p \<mapsto> getvalue uf)) p = Inr doc
        \<and> export doc fmt = Inr content
        \<and> unlink_refused env ((fs w)(p \<mapsto> getvalue uf)) p = Some e \<longrightarrow>
        last (fst (loop_body env fmt uf (rs, w))) ''message'' = Some (PStr (str_e e)))
   \<and> (get_file_format (runtime env) (FormatToExtensions env) (name uf) = None \<longrightarrow>
        fst (loop_body env fmt uf (rs, w)) = rs @ [unsupported_record (name uf)]
        \<and> unsupported_record (name uf) ''message'' = Some (PStr msg_unsupported))
   \<and> (try_body_enh env fmt uf (now env (clock (the_world s)))
          (s\<lparr>the_world := (the_world s)\<lparr>clock := Suc (clock (the_world s))\<rparr>\<rparr>) = (Some e, tp, s1) \<longrightarrow>
        last (conversion_results (loop_body_enh env fmt uf s)) ''error'' =
           Some (PStr (if contains (u ''No such file or directory'') (str_e e)
                       then msg_access_prefix @ str_e e @ msg_access_hints else str_e e)))
   \<and> (NamedTemporaryFile env (fs (the_world s)) (suffix (name uf)) = Inl e \<longrightarrow>
        last (conversion_results (loop_body_enh env fmt uf s)) ''error'' =
           Some (PStr (if contains (u ''No such file or directory'') (str_e e)
                       then msg_access_prefix @ str_e e @ msg_access_hints else str_e e)))
   \<and> (NamedTemporaryFile env (fs (the_world s)) (suffix (name uf)) = Inr p
        \<and> converter_convert env ((fs (the_world s))(p \<mapsto> getvalue uf)) p = Inl e \<longrightarrow>
        last (conversion_results (loop_body_enh env fmt uf s)) ''error'' =
           Some (PStr (if contains (u ''No such file or directory'') (str_e e)
                       then msg_access_prefix @ str_e e @ msg_access_hints else str_e e)))
   \<and> (NamedTemporaryFile env (fs (the_world s)) (suffix (name uf)) = Inr p
        \<and> converter_convert env ((fs (the_world s))(p \<mapsto> getvalue uf)) p = Inr doc
        \<and> export_enh doc fmt = Inl e \<longrightarrow>
        last (conversion_results (loop_body_enh env fmt uf s)) ''error'' =
           Some (PStr (if contains (u ''No such file or directory'') (str_e e)
                       then msg_access_prefix @ str_e e @ msg_access_hints else str_e e)))
   \<and> msg_access_prefix @ str_e e @ msg_access_hints \<noteq> str_e e"
proof -
  let ?w = "w\<lparr>clock := Suc (clock w)\<rparr>"
  let ?s = "s\<lparr>the_world := (the_world s)\<lparr>clock := Suc (clock (the_world s))\<rparr>\<rparr>"
  let ?sfx = "u ''.'' @ last (str_split 46 (name uf))"
  let ?M = "last (fst (loop_body env fmt uf (rs, w))) ''message'' = Some (PStr (str_e e))"
  let ?N = "last (conversion_results (loop_body_enh env fmt uf s)) ''error'' =
           Some (PStr (if contains (u ''No such file or directory'') (str_e e)
                       then msg_access_prefix @ str_e e @ msg_access_hints else str_e e))"
  have fw: "fs ?w = fs w" by simp
  have fs': "fs (the_world ?s) = fs (the_world s)" by simp
  have c1: "try_body env fmt uf (now env (clock w)) rs ?w = (Some e, rs1, w1) \<longrightarrow> ?M"
    by (rule impI, rule loop_body_raise_message)
  have c2: "get_file_format (runtime env) (FormatToExtensions env) (name uf) = Some ff
        \<and> NamedTemporaryFile env (fs w) ?sfx = Inl e \<longrightarrow> ?M"
  proof
    assume h: "get_file_format (runtime env) (FormatToExtensions env) (name uf) = Some ff
        \<and> NamedTemporaryFile env (fs w) ?sfx = Inl e"
    have a: "NamedTemporaryFile env (fs ?w) ?sfx = Inl e" using h by (simp only: fw)
    show ?M by (rule loop_body_raise_message, rule try_body_tmp_raises[OF h[THEN conjunct1] a])
  qed
  have c3: "get_file_format (runtime env) (FormatToExtensions env) (name uf) = Some ff
        \<and> NamedTemporaryFile env (fs w) ?sfx = Inr p
        \<and> converter_convert env ((fs w)(p \<mapsto> getvalue uf)) p = Inl e \<longrightarrow> ?M"
  proof
    assume h: "get_file_format (runtime env) (FormatToExtensions env) (name uf) = Some ff
        \<and> NamedTemporaryFile env (fs w) ?sfx = Inr p
        \<and> converter_convert env ((fs w)(p \<mapsto> getvalue uf)) p = Inl e"
    have a: "NamedTemporaryFile env (fs ?w) ?sfx = Inr p" using h by (simp only: fw)
    have b: "converter_convert env ((fs ?w)(p \<mapsto> getvalue uf)) p = Inl e" using h by (simp only: fw)
    show ?M by (rule loop_body_raise_message, rule try_body_convert_raises[OF h[THEN conjunct1] a b])
  qed
  have c4: "get_file_format (runtime env) (FormatToExtensions env) (name uf) = Some ff
        \<and> NamedTemporaryFile env (fs w) ?sfx = Inr p
        \<and> converter_convert env ((fs w)(p \<mapsto> getvalue uf)) p = Inr doc
        \<and> export doc fmt = Inl e \<longrightarrow> ?M"
  proof
    assume h: "get_file_format (runtime env) (FormatToExtensions env) (name uf) = Some ff
        \<and> NamedTemporaryFile env (fs w) ?sfx = Inr p
        \<and> converter_convert env ((fs w)(p \<mapsto> getvalue uf)) p = Inr doc
        \<and> export doc fmt = Inl e"
    have a: "NamedTemporaryFile env (fs ?w) ?sfx = Inr p" using h by (simp only: fw)
    have b: "converter_convert env ((fs ?w)(p \<mapsto> getvalue uf)) p = Inr doc" using h by (simp only: fw)
    have c: "export doc fmt = Inl e" using h by (elim conjE)
    show ?M by (rule loop_body_raise_message, rule try_body_export_raises[OF h[THEN conjunct1] a b c])
  qed
  have c5: "get_file_format (runtime env) (FormatToExtensions env) (name uf) = Some ff
        \<and> NamedTemporaryFile env (fs w) ?sfx = Inr p
        \<and> converter_convert env ((fs w)(p \<mapsto> getvalue uf)) p = Inr doc
        \<and> export doc fmt = Inr content
        \<and> unlink_refused env ((fs w)(p \<mapsto> getvalue uf)) p = Some e \<longrightarrow> ?M"
  proof
    assume h: "get_file_format (runtime env) (FormatToExtensions env) (name uf) = Some ff
        \<and> NamedTemporaryFile env (fs w) ?sfx = Inr p
        \<and> converter_convert env ((fs w)(p \<mapsto> getvalue uf)) p = Inr doc
        \<and> export doc fmt = Inr content
        \<and> unlink_refused env ((fs w)(p \<mapsto> getvalue uf)) p = Some e"
    have a: "NamedTemporaryFile env (fs ?w) ?sfx = Inr p" using h by (simp only: fw)
    have b: "converter_convert env ((fs ?w)(p \<mapsto> getvalue uf)) p = Inr doc" using h by (simp only: fw)
    have c: "export doc fmt = Inr content" using h by (elim conjE)
    have d: "unlink_refused env ((fs ?w)(p \<mapsto> getvalue uf)) p = Some e" using h by (simp only: fw)
    show ?M by (rule loop_body_raise_message, rule try_body_unlink_raises[OF h[THEN conjunct1] a b c d])
  qed
  have c6: "get_file_format (runtime env) (FormatToExtensions env) (name uf) = None \<longrightarrow>
        fst (loop_body env fmt uf (rs, w)) = rs @ [unsupported_record (name uf)]
        \<and> unsupported_record (name uf) ''message'' = Some (PStr msg_unsupported)"
  proof
    assume h: "get_file_format (runtime env) (FormatToExtensions env) (name uf) = None"
    note r = try_body_unsupported[OF h, where fmt = fmt and t = "now env (clock w)" and rs = rs and w = ?w]
    show "fst (loop_body env fmt uf (rs, w)) = rs @ [unsupported_record (name uf)]
        \<and> unsupported_record (name uf) ''message'' = Some (PStr msg_unsupported)"
      by (simp add: loop_body_return[OF r] unsupported_record_fields)
  qed
  have c7: "try_body_enh env fmt uf (now env (clock (the_world s))) ?s = (Some e, tp, s1) \<longrightarrow> ?N"
    by (rule impI, rule loop_body_enh_raise_error)
  have c8: "NamedTemporaryFile env (fs (the_world s)) (suffix (name uf)) = Inl e \<longrightarrow> ?N"
  proof
    assume h: "NamedTemporaryFile env (fs (the_world s)) (suffix (name uf)) = Inl e"
    have a: "NamedTemporaryFile env (fs (the_world ?s)) (suffix (name uf)) = Inl e"
      using h by (simp only: fs')
    show ?N by (rule loop_body_enh_raise_error, rule try_body_enh_tmp_raises[OF a])
  qed
  have c9: "NamedTemporaryFile env (fs (the_world s)) (suffix (name uf)) = Inr p
        \<and> converter_convert env ((fs (the_world s))(p \<mapsto> getvalue uf)) p = Inl e \<longrightarrow> ?N"
  proof
    assume h: "NamedTemporaryFile env (fs (the_world s)) (suffix (name uf)) = Inr p
        \<and> converter_convert env ((fs (the_world s))(p \<mapsto> getvalue uf)) p = Inl e"
    have a: "NamedTemporaryFile env (fs (the_world ?s)) (suffix (name uf)) = Inr p"
      using h by (simp only: fs')
    have b: "converter_convert env ((fs (the_world ?s))(p \<mapsto> getvalue uf)) p = Inl e"
      using h by (simp only: fs')
    show ?N by (rule loop_body_enh_raise_error, rule try_body_enh_convert_raises[OF a b])
  qed
  have c10: "NamedTemporaryFile env (fs (the_world s)) (suffix (name uf)) = Inr p
        \<and> converter_convert env ((fs (the_world s))(p \<mapsto> getvalue uf)) p = Inr doc
        \<and> export_enh doc fmt = Inl e \<longrightarrow> ?N"
  proof
    assume h: "NamedTemporaryFile env (fs (the_world s)) (suffix (name uf)) = Inr p
        \<and> converter_convert env ((fs (the_world s))(p \<mapsto> getvalue uf)) p = Inr doc
        \<and> export_enh doc fmt = Inl e"
    have a: "NamedTemporaryFile env (fs (the_world ?s)) (suffix (name uf)) = Inr p"
      using h by (simp only: fs')
    have b: "converter_convert env ((fs (the_world ?s))(p \<mapsto> getvalue uf)) p = Inr doc"
      using h by (simp only: fs')
    have c: "export_enh doc fmt = Inl e" using h by (elim conjE)
    show ?N by (rule loop_body_enh_raise_error, rule try_body_enh_export_raises[OF a b c])
  qed
  have c11: "msg_access_prefix @ str_e e @ msg_access_hints \<noteq> str_e e"
    by (rule wrapped_differs)
  show ?thesis
    by (intro conjI, rule c1, rule c2, rule c3, rule c4, rule c5, rule c6,
        rule c7, rule c8, rule c9, rule c10, rule c11)
qed


theorem exceptions_enh_missing_file_counterexample:
  "map (\<lambda>r. r ''error'')
       (conversion_results (loop_body_enh missing_file_env (u ''Markdown'') example_pdf example_state))
     = [Some (PStr (msg_access_prefix @ str_e missing_file_exn @ msg_access_hints))]
   \<and> msg_access_prefix @ str_e missing_file_exn @ msg_access_hints \<noteq> str_e missing_file_exn
   \<and> map (\<lambda>r. r ''message'')
       (fst (loop_body missing_file_env (u ''markdown'') example_pdf ([], example_world)))
     = [Some (PStr (str_e missing_file_exn))]"
proof -
  let ?s = "example_state\<lparr>the_world := (the_world example_state)\<lparr>clock := Suc (clock (the_world example_state))\<rparr>\<rparr>"
  let ?w = "example_world\<lparr>clock := Suc (clock example_world)\<rparr>"
  note t = try_body_enh_convert_raises[OF missing_file_tmp_enh missing_file_convert,
      where st = ?s and t = "now missing_file_env (clock (the_world example_state))"
        and fmt = "u ''Markdown''"]
  have a: "map (\<lambda>r. r ''error'')
       (conversion_results (loop_body_enh missing_file_env (u ''Markdown'') example_pdf example_state))
     = [Some (PStr (msg_access_prefix @ str_e missing_file_exn @ msg_access_hints))]"
    using loop_body_enh_raise[OF t]
    by (simp add: error_message_enh_if missing_file_contains failure_record_enh_fields
        example_state_def)
  have b: "msg_access_prefix @ str_e missing_file_exn @ msg_access_hints \<noteq> str_e missing_file_exn"
    by (rule wrapped_differs)
  note r = try_body_convert_raises[OF missing_file_format missing_file_tmp missing_file_convert,
      where w = ?w and t = "now missing_file_env (clock example_world)" and rs = "[]"
        and fmt = "u ''markdown''"]
  have c: "map (\<lambda>r. r ''message'')
       (fst (loop_body missing_file_env (u ''markdown'') example_pdf ([], example_world)))
     = [Some (PStr (str_e missing_file_exn))]"
    using loop_body_raise[OF r] by (simp add: error_record_fields)
  show ?thesis by (intro conjI, rule a, rule b, rule c)
qed

lemma example_export_json: "export example_document (u ''json'') = Inl (Exn ''AttributeError'' (u ''export_to_json''))"
  by (simp add: export_def example_document_def u_def)

lemma example_export_enh_json:
  "export_enh example_document (u ''JSON'') = Inl (Exn ''AttributeError'' (u ''export_to_json''))"
  by (simp add: export_enh_def example_document_def u_def)

lemma example_xyz_format:
  "get_file_format (runtime example_env) (FormatToExtensions example_env) (name example_xyz) = None"
  by (simp add: example_env_def example_xyz_def get_file_format_def ascii_python_def
      ascii_lower_chr_def u_def)

lemma full_not_missing: "\<not> contains (u ''No such file or directory'') (u ''disk full'')"
  by (simp add: u_def)

lemma json_not_missing: "\<not> contains (u ''No such file or directory'') (u ''export_to_json'')"
  by (simp add: u_def)

theorem exceptions_are_stringified_witness:
  "last (fst (loop_body example_env (u ''html'') example_pdf ([], example_world))) ''message'' = Some (PStr (u ''boom''))
   \<and> last (fst (loop_body full_env (u ''markdown'') example_pdf ([], example_world))) ''message'' = Some (PStr (u ''disk full''))
   \<and> last (fst (loop_body example_env (u ''markdown'') example_pdf ([], example_world))) ''message'' = Some (PStr (u ''boom''))
   \<and> last (fst (loop_body example_env (u ''json'') example_docx ([], example_world))) ''message'' = Some (PStr (u ''export_to_json''))
   \<and> last (fst (loop_body locked_env (u ''markdown'') example_docx ([], example_world))) ''message'' = Some (PStr (u ''[WinError 32] file in use''))
   \<and> fst (loop_body example_env (u ''markdown'') example_xyz ([], example_world)) = [unsupported_record (u ''c.xyz'')] \<and> unsupported_record (u ''c.xyz'') ''message'' = Some (PStr msg_unsupported)
   \<and> last (conversion_results (loop_body_enh example_env (u ''HTML'') example_pdf example_state)) ''error'' = Some (PStr (u ''boom''))
   \<and> last (conversion_results (loop_body_enh full_env (u ''Markdown'') example_pdf example_state)) ''error'' = Some (PStr (u ''disk full''))
   \<and> last (conversion_results (loop_body_enh missing_file_env (u ''Markdown'') example_pdf example_state)) ''error'' = Some (PStr (msg_access_prefix @ str_e missing_file_exn @ msg_access_hints))
   \<and> last (conversion_results (loop_body_enh example_env (u ''JSON'') example_docx example_state)) ''error'' = Some (PStr (u ''export_to_json''))
   \<and> msg_access_prefix @ str_e missing_file_exn @ msg_access_hints \<noteq> str_e missing_file_exn"
proof -
  have h_g: "try_body example_env (u ''html'') example_pdf (now example_env (clock example_world)) [] (example_world\<lparr>clock := Suc (clock example_world)\<rparr>) = (Some (Exn ''ConversionError'' (u ''boom'')), [], (example_world\<lparr>clock := Suc (clock example_world)\<rparr>)\<lparr>fs := (fs (example_world\<lparr>clock := Suc (clock example_world)\<rparr>))(u ''/tmp/tmp0.pdf'' \<mapsto> getvalue example_pdf)\<rparr>)"
    by (rule try_body_convert_raises[OF example_pdf_format example_pdf_tmp example_pdf_convert])
  have w_g: "last (fst (loop_body example_env (u ''html'') example_pdf ([], example_world))) ''message'' = Some (PStr (u ''boom''))"
    using mp[OF exceptions_are_stringified[where env = example_env and fmt = "u ''html''" and uf = example_pdf and w = example_world and rs = "[]" and e = "Exn ''ConversionError'' (u ''boom'')" and ?rs1.0 = "[]" and ?w1.0 = "(example_world\<lparr>clock := Suc (clock example_world)\<rparr>)\<lparr>fs := (fs (example_world\<lparr>clock := Suc (clock example_world)\<rparr>))(u ''/tmp/tmp0.pdf'' \<mapsto> getvalue example_pdf)\<rparr>", THEN conjunct1] h_g]
    by simp
  have h_tmp: "get_file_format (runtime full_env) (FormatToExtensions full_env) (name example_pdf) = Some 1 \<and> NamedTemporaryFile full_env (fs example_world) (u ''.'' @ last (str_split 46 (name example_pdf))) = Inl (Exn ''OSError'' (u ''disk full''))"
    using example_pdf_format by (simp add: full_env_def)
  have w_tmp: "last (fst (loop_body full_env (u ''markdown'') example_pdf ([], example_world))) ''message'' = Some (PStr (u ''disk full''))"
    using mp[OF exceptions_are_stringified[where env = full_env and fmt = "u ''markdown''" and uf = example_pdf and w = example_world and rs = "[]" and e = "Exn ''OSError'' (u ''disk full'')" and ff = 1, THEN conjunct2, THEN conjunct1] h_tmp]
    by simp
  have h_conv: "get_file_format (runtime example_env) (FormatToExtensions example_env) (name example_pdf) = Some 1 \<and> NamedTemporaryFile example_env (fs example_world) (u ''.'' @ last (str_split 46 (name example_pdf))) = Inr (u ''/tmp/tmp0.pdf'') \<and> converter_convert example_env ((fs example_world)(u ''/tmp/tmp0.pdf'' \<mapsto> getvalue example_pdf)) (u ''/tmp/tmp0.pdf'') = Inl (Exn ''ConversionError'' (u ''boom''))"
    by (intro conjI, rule example_pdf_format, rule example_pdf_tmp, rule example_pdf_convert)
  have w_conv: "last (fst (loop_body example_env (u ''markdown'') example_pdf ([], example_world))) ''message'' = Some (PStr (u ''boom''))"
    using mp[OF exceptions_are_stringified[where env = example_env and fmt = "u ''markdown''" and uf = example_pdf and w = example_world and rs = "[]" and e = "Exn ''ConversionError'' (u ''boom'')" and ff = 1 and p = "u ''/tmp/tmp0.pdf''", THEN conjunct2, THEN conjunct2, THEN conjunct1] h_conv]
    by simp
  have h_exp: "get_file_format (runtime example_env) (FormatToExtensions example_env) (name example_docx) = Some 2 \<and> NamedTemporaryFile example_env (fs example_world) (u ''.'' @ last (str_split 46 (name example_docx))) = Inr (u ''/tmp/tmp0.docx'') \<and> converter_convert example_env ((fs example_world)(u ''/tmp/tmp0.docx'' \<mapsto> getvalue example_docx)) (u ''/tmp/tmp0.docx'') = Inr example_document \<and> export example_document (u ''json'') = Inl (Exn ''AttributeError'' (u ''export_to_json''))"
    by (intro conjI, rule example_docx_format, rule example_docx_tmp, rule example_docx_convert, rule example_export_json)
  have w_exp: "last (fst (loop_body example_env (u ''json'') example_docx ([], example_world))) ''message'' = Some (PStr (u ''export_to_json''))"
    using mp[OF exceptions_are_stringified[where env = example_env and fmt = "u ''json''" and uf = example_docx and w = example_world and rs = "[]" and e = "Exn ''AttributeError'' (u ''export_to_json'')" and ff = 2 and p = "u ''/tmp/tmp0.docx''" and doc = example_document, THEN conjunct2, THEN conjunct2, THEN conjunct2, THEN conjunct1] h_exp]
    by simp
  have h_unl: "get_file_format (runtime locked_env) (FormatToExtensions locked_env) (name example_docx) = Some 2 \<and> NamedTemporaryFile locked_env (fs example_world) (u ''.'' @ last (str_split 46 (name example_docx))) = Inr (u ''/tmp/tmp0.docx'') \<and> converter_convert locked_env ((fs example_world)(u ''/tmp/tmp0.docx'' \<mapsto> getvalue example_docx)) (u ''/tmp/tmp0.docx'') = Inr example_document \<and> export example_document (u ''markdown'') = Inr (u ''# Title'') \<and> unlink_refused locked_env ((fs example_world)(u ''/tmp/tmp0.docx'' \<mapsto> getvalue example_docx)) (u ''/tmp/tmp0.docx'') = Some locked_exn"
    using example_docx_format example_docx_tmp[of "fs example_world"] example_docx_convert[of "(fs example_world)(u ''/tmp/tmp0.docx'' \<mapsto> getvalue example_docx)"] example_export by (simp add: locked_env_def)
  have w_unl: "last (fst (loop_body locked_env (u ''markdown'') example_docx ([], example_world))) ''message'' = Some (PStr (u ''[WinError 32] file in use''))"
    using mp[OF exceptions_are_stringified[where env = locked_env and fmt = "u ''markdown''" and uf = example_docx and w = example_world and rs = "[]" and e = locked_exn and ff = 2 and p = "u ''/tmp/tmp0.docx''" and doc = example_document and content = "u ''# Title''", THEN conjunct2, THEN conjunct2, THEN conjunct2, THEN conjunct2, THEN conjunct1] h_unl]
    by (simp add: locked_exn_def)
  have h_uns: "get_file_format (runtime example_env) (FormatToExtensions example_env) (name example_xyz) = None"
    by (rule example_xyz_format)
  have w_uns: "fst (loop_body example_env (u ''markdown'') example_xyz ([], example_world)) = [unsupported_record (u ''c.xyz'')] \<and> unsupported_record (u ''c.xyz'') ''message'' = Some (PStr msg_unsupported)"
    using mp[OF exceptions_are_stringified[where env = example_env and fmt = "u ''markdown''" and uf = example_xyz and w = example_world and rs = "[]", THEN conjunct2, THEN conjunct2, THEN conjunct2, THEN conjunct2, THEN conjunct2, THEN conjunct1] h_uns]
    by (simp add: example_xyz_def)
  have h_ge: "try_body_enh example_env (u ''HTML'') example_pdf (now example_env (clock (the_world example_state))) (example_state\<lparr>the_world := (the_world example_state)\<lparr>clock := Suc (clock (the_world example_state))\<rparr>\<rparr>) = (Some (Exn ''ConversionError'' (u ''boom'')), Some (u ''/tmp/tmp0.pdf''), (example_state\<lparr>the_world := (the_world example_state)\<lparr>clock := Suc (clock (the_world example_state))\<rparr>\<rparr>)\<lparr>the_world := (the_world (example_state\<lparr>the_world := (the_world example_state)\<lparr>clock := Suc (clock (the_world example_state))\<rparr>\<rparr>))\<lparr>fs := (fs (the_world (example_state\<lparr>the_world := (the_world example_state)\<lparr>clock := Suc (clock (the_world example_state))\<rparr>\<rparr>)))(u ''/tmp/tmp0.pdf'' \<mapsto> getvalue example_pdf)\<rparr>\<rparr>)"
    by (rule try_body_enh_convert_raises[OF example_pdf_tmp_enh example_pdf_convert])
  have w_ge: "last (conversion_results (loop_body_enh example_env (u ''HTML'') example_pdf example_state)) ''error'' = Some (PStr (u ''boom''))"
    using mp[OF exceptions_are_stringified[where env = example_env and fmt = "u ''HTML''" and uf = example_pdf and s = example_state and e = "Exn ''ConversionError'' (u ''boom'')" and tp = "Some (u ''/tmp/tmp0.pdf'')" and ?s1.0 = "(example_state\<lparr>the_world := (the_world example_state)\<lparr>clock := Suc (clock (the_world example_state))\<rparr>\<rparr>)\<lparr>the_world := (the_world (example_state\<lparr>the_world := (the_world example_state)\<lparr>clock := Suc (clock (the_world example_state))\<rparr>\<rparr>))\<lparr>fs := (fs (the_world (example_state\<lparr>the_world := (the_world example_state)\<lparr>clock := Suc (clock (the_world example_state))\<rparr>\<rparr>)))(u ''/tmp/tmp0.pdf'' \<mapsto> getvalue example_pdf)\<rparr>\<rparr>", THEN conjunct2, THEN conjunct2, THEN conjunct2, THEN conjunct2, THEN conjunct2, THEN conjunct2, THEN conjunct1] h_ge]
    by (simp add: boom_not_missing)
  have h_tmpe: "NamedTemporaryFile full_env (fs (the_world example_state)) (suffix (name example_pdf)) = Inl (Exn ''OSError'' (u ''disk full''))"
    by (simp add: full_env_def)
  have w_tmpe: "last (conversion_results (loop_body_enh full_env (u ''Markdown'') example_pdf example_state)) ''error'' = Some (PStr (u ''disk full''))"
    using mp[OF exceptions_are_stringified[where env = full_env and fmt = "u ''Markdown''" and uf = example_pdf and s = example_state and e = "Exn ''OSError'' (u ''disk full'')", THEN conjunct2, THEN conjunct2, THEN conjunct2, THEN conjunct2, THEN conjunct2, THEN conjunct2, THEN conjunct2, THEN conjunct1] h_tmpe]
    by (simp add: full_not_missing)
  have h_conve: "NamedTemporaryFile missing_file_env (fs (the_world example_state)) (suffix (name example_pdf)) = Inr (u ''/tmp/tmp0.pdf'') \<and> converter_convert missing_file_env ((fs (the_world example_state))(u ''/tmp/tmp0.pdf'' \<mapsto> getvalue example_pdf)) (u ''/tmp/tmp0.pdf'') = Inl missing_file_exn"
    by (intro conjI, rule missing_file_tmp_enh, rule missing_file_convert)
  have w_conve: "last (conversion_results (loop_body_enh missing_file_env (u ''Markdown'') example_pdf example_state)) ''error'' = Some (PStr (msg_access_prefix @ str_e missing_file_exn @ msg_access_hints))"
    using mp[OF exceptions_are_stringified[where env = missing_file_env and fmt = "u ''Markdown''" and uf = example_pdf and s = example_state and e = missing_file_exn and p = "u ''/tmp/tmp0.pdf''", THEN conjunct2, THEN conjunct2, THEN conjunct2, THEN conjunct2, THEN conjunct2, THEN conjunct2, THEN conjunct2, THEN conjunct2, THEN conjunct1] h_conve]
    by (simp add: missing_file_contains)
  have h_expe: "NamedTemporaryFile example_env (fs (the_world example_state)) (suffix (name example_docx)) = Inr (u ''/tmp/tmp0.docx'') \<and> converter_convert example_env ((fs (the_world example_state))(u ''/tmp/tmp0.docx'' \<mapsto> getvalue example_docx)) (u ''/tmp/tmp0.docx'') = Inr example_document \<and> export_enh example_document (u ''JSON'') = Inl (Exn ''AttributeError'' (u ''export_to_json''))"
    by (intro conjI, rule example_docx_tmp_enh, rule example_docx_convert, rule example_export_enh_json)
  have w_expe: "last (conversion_results (loop_body_enh example_env (u ''JSON'') example_docx example_state)) ''error'' = Some (PStr (u ''export_to_json''))"
    using mp[OF exceptions_are_stringified[where env = example_env and fmt = "u ''JSON''" and uf = example_docx and s = example_state and e = "Exn ''AttributeError'' (u ''export_to_json'')" and p = "u ''/tmp/tmp0.docx''" and doc = example_document, THEN conjunct2, THEN conjunct2, THEN conjunct2, THEN conjunct2, THEN conjunct2, THEN conjunct2, THEN conjunct2, THEN conjunct2, THEN conjunct2, THEN conjunct1] h_expe]
    by (simp add: json_not_missing)
  have w_last: "msg_access_prefix @ str_e missing_file_exn @ msg_access_hints \<noteq> str_e missing_file_exn"
    by (rule exceptions_are_stringified[where e = missing_file_exn, THEN conjunct2, THEN conjunct2, THEN conjunct2, THEN conjunct2, THEN conjunct2, THEN conjunct2, THEN conjunct2, THEN conjunct2, THEN conjunct2, THEN conjunct2])
  show ?thesis
    by (intro conjI, rule w_g, rule w_tmp, rule w_conv, rule w_exp, rule w_unl, rule w_uns[THEN conjunct1], rule w_uns[THEN conjunct2], rule w_ge, rule w_tmpe, rule w_conve, rule w_expe, rule w_last)
qed


section \<open>Claims about the temporary files\<close>

lemma loop_body_leaves_tmp_file:
  assumes f: "get_file_format (runtime env) (FormatToExtensions env) (name uf) = Some ff"
    and t: "NamedTemporaryFile env (fs w) (u ''.'' @ last (str_split 46 (name uf))) = Inr p"
    and c: "converter_convert env ((fs w)(p \<mapsto> getvalue uf)) p = Inl e"
  shows "fs (snd (loop_body env fmt uf (rs, w))) p = Some (getvalue uf)"
proof -
  let ?w = "w\<lparr>clock := Suc (clock w)\<rparr>"
  have t': "NamedTemporaryFile env (fs ?w) (u ''.'' @ last (str_split 46 (name uf))) = Inr p"
    using t by simp
  have c': "converter_convert env ((fs ?w)(p \<mapsto> getvalue uf)) p = Inl e"
    using c by simp
  note r = try_body_convert_raises[OF f t' c', where t = "now env (clock w)" and rs = rs and fmt = fmt]
  from loop_body_raise[OF r] show ?thesis by simp
qed

lemma cleanup_removes:
  assumes "p \<noteq> []" and "unlink_refused env (fs w) p = None"
  shows "fs (cleanup env (Some p) w) p = None"
  using assms by (cases "fs w p") (simp_all add: cleanup_def os_path_exists_def os_unlink_def)

lemma loop_body_enh_removes_tmp_file:
  assumes t: "NamedTemporaryFile env (fs (the_world s)) (suffix (name uf)) = Inr p"
    and p: "p \<noteq> []"
    and r: "\<And>files. unlink_refused env files p = None"
  shows "fs (the_world (loop_body_enh env fmt uf s)) p = None"
proof -
  let ?s = "s\<lparr>the_world := (the_world s)\<lparr>clock := Suc (clock (the_world s))\<rparr>\<rparr>"
  have t': "NamedTemporaryFile env (fs (the_world ?s)) (suffix (name uf)) = Inr p"
    using t by simp
  show ?thesis
  proof (cases "converter_convert env ((fs (the_world ?s))(p \<mapsto> getvalue uf)) p")
    case (Inl e)
    note b = try_body_enh_convert_raises[OF t' Inl, where t = "now env (clock (the_world s))" and fmt = fmt]
    show ?thesis
      by (simp add: loop_body_enh_raise[OF b] cleanup_removes[OF p r])
  next
    case (Inr doc)
    note conv = this
    show ?thesis
    proof (cases "export_enh doc fmt")
      case (Inl e)
      note b = try_body_enh_export_raises[OF t' conv Inl, where t = "now env (clock (the_world s))"]
      show ?thesis
        by (simp add: loop_body_enh_raise[OF b] cleanup_removes[OF p r])
    next
      case (Inr cx)
      obtain content ext where cx: "cx = (content, ext)" by (cases cx)
      note b = try_body_enh_success[OF t' conv Inr[unfolded cx], where t = "now env (clock (the_world s))"]
      show ?thesis
        by (simp add: loop_body_enh_return[OF b] cleanup_removes[OF p r])
    qed
  qed
qed

text \<open>
  C2. The base variant unlinks the temporary file as the last statement of the \<open>try\<close>,
  and its handler unlinks nothing: after a turn whose conversion raised, the temporary
  file is still there when the loop moves to the next file, and it is still there at the
  end of the batch. On the sample batch, whose first file makes the converter raise, the
  file \<open>/tmp/tmp0.pdf\<close> outlives the turn and the batch in the base variant; the
  temporary file of the second file, whose conversion succeeds, is unlinked. The enhanced
  variant, on the same first file, unlinks it.
\<close>

theorem temp_file_left_after_failure:
  "fs (snd (loop_body example_env (u ''markdown'') example_pdf ([], example_world))) (u ''/tmp/tmp0.pdf'')
     = Some (u ''%PDF'')
   \<and> fs (snd (convert_loop example_env (u ''markdown'') [example_pdf, example_docx] ([], example_world)))
        (u ''/tmp/tmp0.pdf'')
     = Some (u ''%PDF'')
   \<and> fs (snd (loop_body example_env (u ''markdown'') example_docx ([], example_world))) (u ''/tmp/tmp0.docx'')
     = None
   \<and> fs (the_world (loop_body_enh example_env (u ''Markdown'') example_pdf example_state))
        (u ''/tmp/tmp0.pdf'')
     = None"
proof -
  have ne: "u ''/tmp/tmp0.docx'' \<noteq> u ''/tmp/tmp0.pdf''" by (simp add: u_def)
  have a: "fs (snd (loop_body example_env (u ''markdown'') example_pdf ([], example_world))) (u ''/tmp/tmp0.pdf'')
     = Some (u ''%PDF'')"
    by (simp add: example_loop_body_pdf)
  have b: "fs (snd (convert_loop example_env (u ''markdown'') [example_pdf, example_docx] ([], example_world)))
        (u ''/tmp/tmp0.pdf'')
     = Some (u ''%PDF'')"
    using ne by (simp add: example_loop_body_pdf example_loop_body_docx)
  have c: "fs (snd (loop_body example_env (u ''markdown'') example_docx ([], example_world))) (u ''/tmp/tmp0.docx'')
     = None"
    by (simp add: example_loop_body_docx)
  have d: "fs (the_world (loop_body_enh example_env (u ''Markdown'') example_pdf example_state))
        (u ''/tmp/tmp0.pdf'')
     = None"
    by (simp add: example_loop_body_enh_pdf)
  show ?thesis by (intro conjI, rule a, rule b, rule c, rule d)
qed

end
